theory Spec2Isabelle
  imports Complex_Main "HOL-Library.AList"
begin

section \<open>Data model (database/models.py)\<close>

text \<open>
  The dataclasses of \<^verbatim>\<open>database/models.py\<close> as records, one field per column the
  services read. Identifiers are Python ints, hence \<open>int\<close>. Python floats are modelled as
  exact reals: every float the engine computes comes from a handful of decimal literals and
  small integer quotients, and no property below depends on a rounding error. The
  \<^verbatim>\<open>created_at\<close> timestamp of a question is never read by the engine and is left out.
\<close>

record subject =
  subj_id :: int
  subj_name :: string
  subj_category :: string
  subj_is_core :: bool

record knowledge_point =
  kp_id :: int
  kp_subject_id :: int
  kp_name :: string
  kp_parent_id :: "int option"
  kp_level :: int
  kp_description :: string

record question =
  q_id :: int
  q_subject_id :: int
  q_content :: string
  q_answer :: string
  q_analysis :: string
  q_question_type :: string
  q_difficulty :: real
  q_score :: real

record question_knowledge =
  qk_question_id :: int
  qk_knowledge_point_id :: int
  qk_weight :: real

record student_answer =
  sa_id :: int
  sa_student_id :: int
  sa_exam_id :: int
  sa_question_id :: int
  sa_student_answer :: string
  sa_score_obtained :: real
  sa_is_correct :: bool

text \<open>The tables of the SQLite store the engine reads, each as the list of its rows.\<close>

record database =
  subjects :: "subject list"
  knowledge_points :: "knowledge_point list"
  questions :: "question list"
  question_knowledge_rows :: "question_knowledge list"
  student_answers :: "student_answer list"

section \<open>Python operations that can raise\<close>

datatype py_error = ZeroDivisionError | KeyError | IndexError

definition py_truediv :: "real \<Rightarrow> real \<Rightarrow> py_error + real" where
  "py_truediv a b = (if b = 0 then Inl ZeroDivisionError else Inr (a / b))"

definition py_getitem :: "('k \<times> 'v) list \<Rightarrow> 'k \<Rightarrow> py_error + 'v" where
  \<comment> \<open>\<^verbatim>\<open>d[k]\<close> on a dict kept as an association list in insertion order\<close>
  "py_getitem d k = (case map_of d k of None \<Rightarrow> Inl KeyError | Some v \<Rightarrow> Inr v)"

text \<open>
  \<^verbatim>\<open>round(x, 2)\<close>: Python rounds to the nearest multiple of 0.01 and an exact tie
  goes to the even neighbour.
\<close>

definition round_half_even :: "real \<Rightarrow> int" where
  "round_half_even x =
     (let f = \<lfloor>x\<rfloor>; d = x - of_int f
      in if d < 1 / 2 then f
         else if 1 / 2 < d then f + 1
         else if even f then f else f + 1)"

definition py_round2 :: "real \<Rightarrow> real" where
  "py_round2 x = of_int (round_half_even (x * 100)) / 100"

section \<open>Storage reads (database/db\_manager.py)\<close>

text \<open>
  Each query is the list of rows it selects, in table order. SQL leaves the row order of
  these queries open (only \<^verbatim>\<open>get_all_subjects\<close> has an ORDER BY); nothing
  below depends on which order the store picks, except where a theorem says so.
\<close>

definition get_all_subjects :: "database \<Rightarrow> subject list" where
  "get_all_subjects db = sort_key subj_id (subjects db)"

definition get_student_all_answers :: "database \<Rightarrow> int \<Rightarrow> student_answer list" where
  "get_student_all_answers db student_id =
     filter (\<lambda>a. sa_student_id a = student_id) (student_answers db)"

definition get_question_knowledge_points :: "database \<Rightarrow> int \<Rightarrow> knowledge_point list" where
  \<comment> \<open>\<^verbatim>\<open>knowledge_points kp JOIN question_knowledge qk ON kp.id = qk.knowledge_point_id
      WHERE qk.question_id = ?\<close>\<close>
  "get_question_knowledge_points db question_id =
     [kp. kp \<leftarrow> knowledge_points db, qk \<leftarrow> question_knowledge_rows db,
          kp_id kp = qk_knowledge_point_id qk, qk_question_id qk = question_id]"

text \<open>
  The filter dictionary of \<^verbatim>\<open>search_questions\<close>: a key the caller leaves out is
  \<open>None\<close>. The source tests most keys by truthiness (\<^verbatim>\<open>if filters.get(k)\<close>), so
  a subject id of 0, an empty type string and an empty list switch their condition off;
  the two difficulty bounds are tested with \<^verbatim>\<open>is not None\<close>.
\<close>

record filters =
  f_subject_id :: "int option"
  f_knowledge_point_ids :: "int list option"
  f_question_type :: "string option"
  f_min_difficulty :: "real option"
  f_max_difficulty :: "real option"
  f_exclude_ids :: "int list option"

definition search_questions :: "database \<Rightarrow> filters \<Rightarrow> question list" where
  "search_questions db f =
     (let joined =
            (case f_knowledge_point_ids f of
               None \<Rightarrow> questions db
             | Some kps \<Rightarrow>
                 if kps = [] then questions db
                 else [q. q \<leftarrow> questions db, qk \<leftarrow> question_knowledge_rows db,
                          q_id q = qk_question_id qk, qk_knowledge_point_id qk \<in> set kps]);
          cond_subject = (\<lambda>q. case f_subject_id f of
               None \<Rightarrow> True
             | Some s \<Rightarrow> if s = 0 then True else q_subject_id q = s);
          cond_type = (\<lambda>q. case f_question_type f of
               None \<Rightarrow> True
             | Some t \<Rightarrow> if t = [] then True else q_question_type q = t);
          cond_min = (\<lambda>q. case f_min_difficulty f of
               None \<Rightarrow> True
             | Some lo \<Rightarrow> lo \<le> q_difficulty q);
          cond_max = (\<lambda>q. case f_max_difficulty f of
               None \<Rightarrow> True
             | Some hi \<Rightarrow> q_difficulty q \<le> hi);
          cond_exclude = (\<lambda>q. case f_exclude_ids f of
               None \<Rightarrow> True
             | Some ex \<Rightarrow> if ex = [] then True else q_id q \<notin> set ex)
      in remdups (filter (\<lambda>q. cond_subject q \<and> cond_type q \<and> cond_min q \<and> cond_max q
                                \<and> cond_exclude q) joined))"

section \<open>Randomness\<close>

text \<open>
  The module-level generator of \<^verbatim>\<open>random\<close> as explicit state: the sequence of
  values \<^verbatim>\<open>random.random()\<close> will return and the sequence of positions
  \<^verbatim>\<open>random.choice\<close> will draw (reduced modulo the length of its argument, so every
  element can be drawn). Each call consumes the head of its sequence.
  \<^verbatim>\<open>random.choice\<close> raises IndexError on an empty sequence.
\<close>

record rng =
  uniform :: "nat \<Rightarrow> real"
  pick :: "nat \<Rightarrow> nat"

definition random_random :: "rng \<Rightarrow> real \<times> rng" where
  "random_random g = (uniform g 0, g\<lparr>uniform := (\<lambda>n. uniform g (Suc n))\<rparr>)"

definition random_choice :: "rng \<Rightarrow> 'a list \<Rightarrow> py_error + ('a \<times> rng)" where
  "random_choice g xs =
     (if xs = [] then Inl IndexError
      else Inr (xs ! (pick g 0 mod length xs), g\<lparr>pick := (\<lambda>n. pick g (Suc n))\<rparr>))"

section \<open>Weakness analysis (services/weakness\_analysis\_service.py)\<close>

text \<open>
  A loop whose body can raise: the fold stops at the first error, as the exception would.
\<close>

fun fold_err :: "('a \<Rightarrow> 's \<Rightarrow> py_error + 's) \<Rightarrow> 'a list \<Rightarrow> 's \<Rightarrow> py_error + 's" where
  "fold_err f [] s = Inr s"
| "fold_err f (x # xs) s = (case f x s of Inl e \<Rightarrow> Inl e | Inr s' \<Rightarrow> fold_err f xs s')"

text \<open>
  \<^verbatim>\<open>kp_performance\<close> is a dict keyed by knowledge-point id; Python dicts keep insertion
  order, so it is an association list in which a new key goes to the end and an existing
  key is updated in place (\<open>AList.update\<close>). Its values are the dicts below; the two keys
  \<^verbatim>\<open>mastery_rate\<close> and \<^verbatim>\<open>subject_name\<close> are added later, to the entries that
  are returned.
\<close>

record kp_data =
  knowledge_point_id :: int
  knowledge_point_name :: string
  kd_subject_id :: int
  kd_level :: int
  total_attempts :: int
  correct_attempts :: int

record weakness = kp_data +
  mastery_rate :: real
  subject_name :: string

definition py_setitem_at ::
    "('k \<times> 'v) list \<Rightarrow> 'k \<Rightarrow> ('v \<Rightarrow> 'v) \<Rightarrow> py_error + ('k \<times> 'v) list" where
  \<comment> \<open>\<^verbatim>\<open>d[k][field] = ...\<close>: reads \<^verbatim>\<open>d[k]\<close>, which raises KeyError when \<open>k\<close> is absent\<close>
  "py_setitem_at d k upd =
     (case map_of d k of None \<Rightarrow> Inl KeyError | Some v \<Rightarrow> Inr (AList.update k (upd v) d))"

definition truthy_id :: "int option \<Rightarrow> bool" where
  \<comment> \<open>\<^verbatim>\<open>if subject_id\<close> for an optional int: None and 0 are false\<close>
  "truthy_id x = (case x of None \<Rightarrow> False | Some v \<Rightarrow> v \<noteq> 0)"

definition tally_kp ::
    "int option \<Rightarrow> student_answer \<Rightarrow> knowledge_point \<Rightarrow> (int \<times> kp_data) list
      \<Rightarrow> py_error + (int \<times> kp_data) list" where
  \<comment> \<open>the body of \<^verbatim>\<open>for kp in kps\<close> in \<^verbatim>\<open>analyze_student_weaknesses\<close>\<close>
  "tally_kp subject_id answer kp kp_performance =
     (if truthy_id subject_id \<and> Some (kp_subject_id kp) \<noteq> subject_id then Inr kp_performance
      else
        let perf1 =
              (if kp_id kp \<notin> fst ` set kp_performance
               then AList.update (kp_id kp)
                      \<lparr>knowledge_point_id = kp_id kp, knowledge_point_name = kp_name kp,
                       kd_subject_id = kp_subject_id kp, kd_level = kp_level kp,
                       total_attempts = 0, correct_attempts = 0\<rparr> kp_performance
               else kp_performance)
        in case py_setitem_at perf1 (kp_id kp)
                  (\<lambda>d. d\<lparr>total_attempts := total_attempts d + 1\<rparr>) of
             Inl e \<Rightarrow> Inl e
           | Inr perf2 \<Rightarrow>
               if sa_is_correct answer
               then py_setitem_at perf2 (kp_id kp)
                      (\<lambda>d. d\<lparr>correct_attempts := correct_attempts d + 1\<rparr>)
               else Inr perf2)"

definition unknown_subject :: string where
  \<comment> \<open>the default subject name of the source, two CJK characters, as its UTF-8 bytes\<close>
  "unknown_subject = [CHR 0xE6, CHR 0x9C, CHR 0xAA, CHR 0xE7, CHR 0x9F, CHR 0xA5]"

definition lookup_subject_name :: "database \<Rightarrow> int \<Rightarrow> string \<Rightarrow> string" where
  \<comment> \<open>\<^verbatim>\<open>next((s.name for s in subjects if s.id == sid), default)\<close>\<close>
  "lookup_subject_name db sid dflt =
     (case filter (\<lambda>s. subj_id s = sid) (get_all_subjects db) of
        [] \<Rightarrow> dflt
      | s # _ \<Rightarrow> subj_name s)"

definition rate_kp :: "database \<Rightarrow> kp_data \<Rightarrow> weakness list \<Rightarrow> py_error + weakness list" where
  \<comment> \<open>the body of \<^verbatim>\<open>for kp_data in kp_performance.values()\<close>\<close>
  "rate_kp db d weaknesses =
     (if total_attempts d = 0 then Inr weaknesses
      else case py_truediv (of_int (correct_attempts d)) (of_int (total_attempts d)) of
             Inl e \<Rightarrow> Inl e
           | Inr rate \<Rightarrow>
               if rate < 0.65
               then Inr (weaknesses @
                      [kp_data.extend d
                         \<lparr>mastery_rate = rate,
                          subject_name = lookup_subject_name db (kd_subject_id d) unknown_subject\<rparr>])
               else Inr weaknesses)"

definition analyze_student_weaknesses ::
    "database \<Rightarrow> int \<Rightarrow> int option \<Rightarrow> py_error + weakness list" where
  "analyze_student_weaknesses db student_id subject_id =
     (let answers = get_student_all_answers db student_id
      in if answers = [] then Inr []
         else
           case fold_err
                  (\<lambda>answer. fold_err (tally_kp subject_id answer)
                     (get_question_knowledge_points db (sa_question_id answer)))
                  answers [] of
             Inl e \<Rightarrow> Inl e
           | Inr kp_performance \<Rightarrow>
               (case fold_err (rate_kp db) (map snd kp_performance) [] of
                  Inl e \<Rightarrow> Inl e
                | Inr weaknesses \<Rightarrow> Inr (sort_key mastery_rate weaknesses)))"

text \<open>
  \<^verbatim>\<open>get_knowledge_point_mastery\<close>: the tally dict \<^verbatim>\<open>{'correct': c, 'total': t}\<close> is a
  pair \<open>(c, t)\<close>; the result maps each knowledge-point id to its ratio.
\<close>

definition tally_stat ::
    "student_answer \<Rightarrow> knowledge_point \<Rightarrow> (int \<times> int \<times> int) list
      \<Rightarrow> py_error + (int \<times> int \<times> int) list" where
  "tally_stat answer kp kp_stats =
     (let stats1 =
            (if kp_id kp \<notin> fst ` set kp_stats
             then AList.update (kp_id kp) (0, 0) kp_stats
             else kp_stats)
      in case py_setitem_at stats1 (kp_id kp) (\<lambda>(c, t). (c, t + 1)) of
           Inl e \<Rightarrow> Inl e
         | Inr stats2 \<Rightarrow>
             if sa_is_correct answer
             then py_setitem_at stats2 (kp_id kp) (\<lambda>(c, t). (c + 1, t))
             else Inr stats2)"

definition mastery_entry ::
    "int \<times> int \<times> int \<Rightarrow> (int \<times> real) list \<Rightarrow> py_error + (int \<times> real) list" where
  "mastery_entry entry mastery =
     (case entry of (kp, c, t) \<Rightarrow>
        if t > 0
        then (case py_truediv (of_int c) (of_int t) of
                Inl e \<Rightarrow> Inl e
              | Inr r \<Rightarrow> Inr (AList.update kp r mastery))
        else Inr (AList.update kp 0.5 mastery))"

definition get_knowledge_point_mastery :: "database \<Rightarrow> int \<Rightarrow> py_error + (int \<times> real) list" where
  "get_knowledge_point_mastery db student_id =
     (let answers = get_student_all_answers db student_id
      in case fold_err
                (\<lambda>answer. fold_err (tally_stat answer)
                   (get_question_knowledge_points db (sa_question_id answer)))
                answers [] of
           Inl e \<Rightarrow> Inl e
         | Inr kp_stats \<Rightarrow> fold_err mastery_entry kp_stats [])"

section \<open>Difficulty targets (services/intelligent\_exam\_generator.py)\<close>

definition get_difficulty_target :: "string \<Rightarrow> real" where
  \<comment> \<open>\<^verbatim>\<open>levels.get(level, 0.5)\<close>\<close>
  "get_difficulty_target level =
     (case map_of [(''easy'', 0.3), (''medium'', 0.5), (''hard'', 0.7)] level of
        Some d \<Rightarrow> d
      | None \<Rightarrow> 0.5)"

definition get_question_difficulty_target :: "int \<Rightarrow> int \<Rightarrow> real \<Rightarrow> py_error + real" where
  \<comment> \<open>the parameter \<^verbatim>\<open>total\<close> of the source is \<open>total_n\<close> here\<close>
  "get_question_difficulty_target index total_n base_difficulty =
     (case (if total_n > 0 then py_truediv (of_int index) (of_int total_n) else Inr 0) of
        Inl e \<Rightarrow> Inl e
      | Inr progress \<Rightarrow>
          (let min_diff = max 0.1 (base_difficulty - 0.2);
               max_diff = min 0.9 (base_difficulty + 0.2)
           in Inr (min_diff + (max_diff - min_diff) * progress)))"

section \<open>Question selection\<close>

text \<open>
  The question-type names and histogram labels of the source are CJK strings; they are
  given here by their UTF-8 bytes.
\<close>

definition type_choice :: string where
  "type_choice = [CHR 0xE9, CHR 0x80, CHR 0x89, CHR 0xE6, CHR 0x8B, CHR 0xA9, CHR 0xE9, CHR 0xA2, CHR 0x98]"

definition type_fill_in :: string where
  "type_fill_in = [CHR 0xE5, CHR 0xA1, CHR 0xAB, CHR 0xE7, CHR 0xA9, CHR 0xBA, CHR 0xE9, CHR 0xA2, CHR 0x98]"

definition type_short_answer :: string where
  "type_short_answer = [CHR 0xE8, CHR 0xA7, CHR 0xA3, CHR 0xE7, CHR 0xAD, CHR 0x94, CHR 0xE9, CHR 0xA2, CHR 0x98]"

definition label_easy :: string where
  "label_easy = [CHR 0xE7, CHR 0xAE, CHR 0x80, CHR 0xE5, CHR 0x8D, CHR 0x95]"

definition label_medium :: string where
  "label_medium = [CHR 0xE4, CHR 0xB8, CHR 0xAD, CHR 0xE7, CHR 0xAD, CHR 0x89]"

definition label_hard :: string where
  "label_hard = [CHR 0xE5, CHR 0x9B, CHR 0xB0, CHR 0xE9, CHR 0x9A, CHR 0xBE]"

text \<open>
  A template entry \<^verbatim>\<open>{'count': c, 'score_each': s}\<close>; the template is a dict from
  type name to entry, iterated in insertion order.
\<close>

record config =
  cfg_count :: int
  cfg_score_each :: int

type_synonym distribution = "(string \<times> config) list"

definition get_default_distribution :: "database \<Rightarrow> int \<Rightarrow> int \<Rightarrow> distribution" where
  \<comment> \<open>the source also looks the subject's name up and never uses it\<close>
  "get_default_distribution db subject_id total_score =
     (if total_score = 150 then
        [(type_choice, \<lparr>cfg_count = 12, cfg_score_each = 4\<rparr>),
         (type_fill_in, \<lparr>cfg_count = 4, cfg_score_each = 5\<rparr>),
         (type_short_answer, \<lparr>cfg_count = 6, cfg_score_each = 15\<rparr>)]
      else if total_score = 100 then
        [(type_choice, \<lparr>cfg_count = 10, cfg_score_each = 4\<rparr>),
         (type_short_answer, \<lparr>cfg_count = 5, cfg_score_each = 12\<rparr>)]
      else
        [(type_choice, \<lparr>cfg_count = 10, cfg_score_each = 4\<rparr>),
         (type_fill_in, \<lparr>cfg_count = 5, cfg_score_each = 5\<rparr>),
         (type_short_answer, \<lparr>cfg_count = 5, cfg_score_each = 10\<rparr>)])"

definition base_filters ::
    "int \<Rightarrow> string \<Rightarrow> real \<times> real \<Rightarrow> int list option \<Rightarrow> filters" where
  \<comment> \<open>the dict literal at the head of \<^verbatim>\<open>_select_question\<close>;
      \<^verbatim>\<open>exclude_ids or []\<close> turns None into the empty list\<close>
  "base_filters subject_id question_type difficulty_range exclude_ids =
     \<lparr>f_subject_id = Some subject_id,
      f_knowledge_point_ids = None,
      f_question_type = Some question_type,
      f_min_difficulty = Some (fst difficulty_range),
      f_max_difficulty = Some (snd difficulty_range),
      f_exclude_ids = Some (case exclude_ids of None \<Rightarrow> [] | Some ex \<Rightarrow> ex)\<rparr>"

text \<open>
  \<^verbatim>\<open>_select_question\<close> returns the chosen question (or None), the generator state, and
  the list of filter dicts it passed to \<^verbatim>\<open>search_questions\<close>, in call order.
\<close>

definition choose_from ::
    "rng \<Rightarrow> question list \<Rightarrow> filters list \<Rightarrow> py_error + (question option \<times> rng \<times> filters list)" where
  \<comment> \<open>\<^verbatim>\<open>return random.choice(questions)\<close>, with the queries made so far\<close>
  "choose_from g qs queries =
     (case random_choice g qs of
        Inl e \<Rightarrow> Inl e
      | Inr r \<Rightarrow> Inr (Some (fst r), snd r, queries))"

definition select_question ::
    "database \<Rightarrow> rng \<Rightarrow> int \<Rightarrow> string \<Rightarrow> int list option \<Rightarrow> real \<times> real \<Rightarrow> int list option
      \<Rightarrow> py_error + (question option \<times> rng \<times> filters list)" where
  "select_question db g subject_id question_type target_kp_ids difficulty_range exclude_ids =
     (let flt = base_filters subject_id question_type difficulty_range exclude_ids;
          unrestricted = (\<lambda>queries.
             let qs = search_questions db flt
             in if qs \<noteq> [] then choose_from g qs (queries @ [flt])
                else Inr (None, g, queries @ [flt]))
      in case target_kp_ids of
           None \<Rightarrow> unrestricted []
         | Some kps \<Rightarrow>
             if kps = [] then unrestricted []
             else
               let flt_kp = flt\<lparr>f_knowledge_point_ids := Some kps\<rparr>;
                   qs = search_questions db flt_kp
               in if qs \<noteq> [] then choose_from g qs [flt_kp]
                  else unrestricted [flt_kp])"

section \<open>Statistics and recommendations\<close>

record diff_stats =
  average :: real
  distribution :: "(string \<times> nat) list"

definition calculate_difficulty_stats :: "question list \<Rightarrow> py_error + diff_stats" where
  "calculate_difficulty_stats qs =
     (if qs = [] then Inr \<lparr>average = 0, distribution = []\<rparr>
      else
        let difficulties = map q_difficulty qs
        in case py_truediv (sum_list difficulties) (of_nat (length difficulties)) of
             Inl e \<Rightarrow> Inl e
           | Inr avg_difficulty \<Rightarrow>
               Inr \<lparr>average = py_round2 avg_difficulty,
                    distribution =
                      [(label_easy, length (filter (\<lambda>d. d < 0.4) difficulties)),
                       (label_medium, length (filter (\<lambda>d. 0.4 \<le> d \<and> d < 0.7) difficulties)),
                       (label_hard, length (filter (\<lambda>d. 0.7 \<le> d) difficulties))]\<rparr>)"

record coverage =
  covered_count :: nat
  total_count :: nat
  coverage_rate :: real

definition covered_weak_kps :: "database \<Rightarrow> question list \<Rightarrow> int list \<Rightarrow> int set" where
  \<comment> \<open>the set built by the two nested loops of \<^verbatim>\<open>_calculate_weakness_coverage\<close>\<close>
  "covered_weak_kps db qs weak_kp_ids =
     fold (\<lambda>q. fold (\<lambda>kp covered.
                       if kp_id kp \<in> set weak_kp_ids then insert (kp_id kp) covered else covered)
                  (get_question_knowledge_points db (q_id q)))
          qs {}"

definition calculate_weakness_coverage ::
    "database \<Rightarrow> question list \<Rightarrow> int list \<Rightarrow> py_error + coverage" where
  "calculate_weakness_coverage db qs weak_kp_ids =
     (if weak_kp_ids = [] then Inr \<lparr>covered_count = 0, total_count = 0, coverage_rate = 0\<rparr>
      else
        let covered = covered_weak_kps db qs weak_kp_ids
        in case (if weak_kp_ids \<noteq> []
                 then py_truediv (of_nat (card covered)) (of_nat (length weak_kp_ids))
                 else Inr 0) of
             Inl e \<Rightarrow> Inl e
           | Inr rate \<Rightarrow>
               Inr \<lparr>covered_count = card covered, total_count = length weak_kp_ids,
                    coverage_rate = py_round2 rate\<rparr>)"

text \<open>
  The recommendation messages are fixed texts with at most two numbers filled in; each
  constructor stands for one message of the source, with those numbers as arguments:
  the bank is insufficient; only \<open>covered\<close> of \<open>total\<close> weak points are covered; \<open>covered\<close>
  weak points are covered, well targeted; the exam is too easy; the exam is too hard.
\<close>

datatype recommendation =
    BankInsufficient
  | LowCoverage nat nat
  | GoodCoverage nat
  | TooEasy
  | TooHard

definition generate_recommendations ::
    "question list \<Rightarrow> weakness list \<Rightarrow> coverage \<Rightarrow> py_error + recommendation list" where
  "generate_recommendations qs weaknesses cov =
     (if length qs = 0 then Inr [BankInsufficient]
      else
        let recs1 =
              (if coverage_rate cov < 0.5 \<and> weaknesses \<noteq> []
               then [LowCoverage (covered_count cov) (total_count cov)]
               else if 0.7 \<le> coverage_rate cov then [GoodCoverage (covered_count cov)]
               else [])
        in case calculate_difficulty_stats qs of
             Inl e \<Rightarrow> Inl e
           | Inr ds \<Rightarrow>
               (case py_getitem (distribution ds) label_easy of
                  Inl e \<Rightarrow> Inl e
                | Inr n_easy \<Rightarrow>
                    if real (length qs) * 0.5 < real n_easy then Inr (recs1 @ [TooEasy])
                    else
                      (case py_getitem (distribution ds) label_hard of
                         Inl e \<Rightarrow> Inl e
                       | Inr n_hard \<Rightarrow>
                           if real (length qs) * 0.5 < real n_hard then Inr (recs1 @ [TooHard])
                           else Inr recs1)))"

section \<open>The composer\<close>

text \<open>
  The state of the selection loop: the questions selected so far, their ids
  (\<^verbatim>\<open>used_q_ids\<close>) and the random generator.
\<close>

type_synonym sel_state = "question list \<times> int list \<times> rng"

definition draw_use_weakness :: "bool \<Rightarrow> int list \<Rightarrow> rng \<Rightarrow> bool \<times> rng" where
  \<comment> \<open>\<^verbatim>\<open>focus_on_weaknesses and len(weak_kp_ids) > 0 and random.random() < 0.7\<close>:
      the generator is only called when the first two conjuncts hold\<close>
  "draw_use_weakness focus_on_weaknesses weak_kp_ids g =
     (if focus_on_weaknesses \<and> length weak_kp_ids > 0
      then (fst (random_random g) < 0.7, snd (random_random g))
      else (False, g))"

fun fill_slot ::
    "database \<Rightarrow> int \<Rightarrow> bool \<Rightarrow> int list \<Rightarrow> real \<Rightarrow> string \<Rightarrow> int \<Rightarrow> int \<Rightarrow> sel_state
      \<Rightarrow> py_error + sel_state" where
  \<comment> \<open>the body of \<^verbatim>\<open>for i in range(count)\<close>; \<open>n\<close> is \<^verbatim>\<open>count\<close> and
      \<open>slot_difficulty\<close> is the local \<^verbatim>\<open>q_difficulty\<close>\<close>
  "fill_slot db subject_id focus_on_weaknesses weak_kp_ids difficulty_target q_type n i
       (selected_questions, used_q_ids, g) =
     (case get_question_difficulty_target i n difficulty_target of
        Inl e \<Rightarrow> Inl e
      | Inr slot_difficulty \<Rightarrow>
          (let use_weakness = fst (draw_use_weakness focus_on_weaknesses weak_kp_ids g);
               g1 = snd (draw_use_weakness focus_on_weaknesses weak_kp_ids g)
           in (case select_question db g1 subject_id q_type
                      (if use_weakness then Some weak_kp_ids else None)
                      (slot_difficulty - 0.15, slot_difficulty + 0.15)
                      (Some used_q_ids) of
                 Inl e \<Rightarrow> Inl e
               | Inr r \<Rightarrow>
                   (case fst r of
                      Some q \<Rightarrow> Inr (selected_questions @ [q], used_q_ids @ [q_id q], fst (snd r))
                    | None \<Rightarrow> Inr (selected_questions, used_q_ids, fst (snd r))))))"

definition fill_type ::
    "database \<Rightarrow> int \<Rightarrow> bool \<Rightarrow> int list \<Rightarrow> real \<Rightarrow> string \<times> config \<Rightarrow> sel_state
      \<Rightarrow> py_error + sel_state" where
  \<comment> \<open>the body of \<^verbatim>\<open>for q_type, config in question_distribution.items()\<close>;
      \<^verbatim>\<open>score_each\<close> is read and not used\<close>
  "fill_type db subject_id focus_on_weaknesses weak_kp_ids difficulty_target entry st =
     (case entry of (q_type, cfg) \<Rightarrow>
        fold_err (fill_slot db subject_id focus_on_weaknesses weak_kp_ids difficulty_target
                    q_type (cfg_count cfg))
          (map int [0..<nat (cfg_count cfg)]) st)"

record generated_exam =
  exam_questions :: "question list"
  exam_total_score :: real
  actual_count :: nat
  difficulty_stats :: diff_stats
  weakness_coverage :: coverage
  recommendations :: "recommendation list"
  weaknesses_analyzed :: "weakness list"

definition generate_targeted_exam ::
    "database \<Rightarrow> rng \<Rightarrow> int \<Rightarrow> int \<Rightarrow> int \<Rightarrow> bool \<Rightarrow> string \<Rightarrow> distribution option
      \<Rightarrow> py_error + (generated_exam \<times> rng)" where
  "generate_targeted_exam db g student_id subject_id total_score focus_on_weaknesses
       difficulty_level question_distribution =
     (case analyze_student_weaknesses db student_id (Some subject_id) of
        Inl e \<Rightarrow> Inl e
      | Inr weaknesses \<Rightarrow>
          (let weak_kp_ids = map knowledge_point_id (take 15 weaknesses);
               qdist = (case question_distribution of
                          None \<Rightarrow> get_default_distribution db subject_id total_score
                        | Some d \<Rightarrow> d);
               difficulty_target = get_difficulty_target difficulty_level
           in (case fold_err
                     (fill_type db subject_id focus_on_weaknesses weak_kp_ids difficulty_target)
                     qdist ([], [], g) of
                 Inl e \<Rightarrow> Inl e
               | Inr st \<Rightarrow>
                   (let selected_questions = fst st
                    in (case calculate_difficulty_stats selected_questions of
                          Inl e \<Rightarrow> Inl e
                        | Inr stats \<Rightarrow>
                            (case calculate_weakness_coverage db selected_questions weak_kp_ids of
                               Inl e \<Rightarrow> Inl e
                             | Inr cov \<Rightarrow>
                                 (case generate_recommendations selected_questions weaknesses cov of
                                    Inl e \<Rightarrow> Inl e
                                  | Inr recs \<Rightarrow>
                                      Inr (\<lparr>exam_questions = selected_questions,
                                            exam_total_score =
                                              sum_list (map q_score selected_questions),
                                            actual_count = length selected_questions,
                                            difficulty_stats = stats,
                                            weakness_coverage = cov,
                                            recommendations = recs,
                                            weaknesses_analyzed = take 10 weaknesses\<rparr>,
                                           snd (snd st)))))))))"

text \<open>
  The loop invariant of the selection loop: \<^verbatim>\<open>used_q_ids\<close> lists the ids of the selected
  questions, and no id occurs twice.
\<close>

definition used_ok :: "sel_state \<Rightarrow> bool" where
  "used_ok st = (fst (snd st) = map q_id (fst st) \<and> distinct (fst (snd st)))"

text \<open>
  The stored attempt history of a student as the mastery estimator reads it: for each of
  the student's graded answers, in stored order, whether it was correct and the ids of the
  knowledge points linked to the answered question.
\<close>

definition attempt_history :: "database \<Rightarrow> int \<Rightarrow> (bool \<times> int list) list" where
  "attempt_history db student_id =
     map (\<lambda>a. (sa_is_correct a,
               map kp_id (get_question_knowledge_points db (sa_question_id a))))
       (get_student_all_answers db student_id)"

text \<open>
  The order in which a scan first meets each element of a list: an element is appended
  when it has not been seen before. \<open>encounter_order\<close> is that order for the
  knowledge-point ids the weakness ranker meets while it scans the student's answers and,
  per answer, the knowledge points of the answered question that pass the subject filter.
\<close>

definition first_seen :: "'a list \<Rightarrow> 'a list" where
  "first_seen xs = fold (\<lambda>k ks. if k \<in> set ks then ks else ks @ [k]) xs []"

definition encounter_order :: "database \<Rightarrow> int \<Rightarrow> int option \<Rightarrow> int list" where
  "encounter_order db student_id subject_id =
     first_seen (concat (map (\<lambda>a.
        map kp_id (filter (\<lambda>kp. \<not> (truthy_id subject_id \<and> Some (kp_subject_id kp) \<noteq> subject_id))
                     (get_question_knowledge_points db (sa_question_id a))))
        (get_student_all_answers db student_id)))"

text \<open>
  Facts about the ranker's intermediate values: every entry of \<^verbatim>\<open>kp_performance\<close> is
  stored under its own knowledge-point id; an entry is weak when it has attempts and its
  ratio is below 0.65; and the dict the ranker returns for a weak entry.
\<close>

definition keyed_by_id :: "(int \<times> kp_data) list \<Rightarrow> bool" where
  "keyed_by_id perf = list_all (\<lambda>e. knowledge_point_id (snd e) = fst e) perf"

definition is_weak :: "kp_data \<Rightarrow> bool" where
  "is_weak d = (total_attempts d \<noteq> 0
                \<and> real_of_int (correct_attempts d) / real_of_int (total_attempts d) < 0.65)"

definition weak_entry :: "database \<Rightarrow> kp_data \<Rightarrow> weakness" where
  "weak_entry db d =
     kp_data.extend d
       \<lparr>mastery_rate = real_of_int (correct_attempts d) / real_of_int (total_attempts d),
        subject_name = lookup_subject_name db (kd_subject_id d) unknown_subject\<rparr>"

text \<open>
  Whether a question of difficulty \<open>delta\<close> falls into the difficulty window of slot \<open>i\<close>
  of a type group of size \<open>n\<close> at base difficulty \<open>b\<close>: the window is the slot's target
  plus and minus 0.15, as \<^verbatim>\<open>generate_targeted_exam\<close> passes it to the query.
\<close>

definition in_window :: "real \<Rightarrow> real \<Rightarrow> int \<Rightarrow> int \<Rightarrow> bool" where
  "in_window delta b n i =
     (case get_question_difficulty_target i n b of
        Inl e \<Rightarrow> False
      | Inr d \<Rightarrow> d - 0.15 \<le> delta \<and> delta \<le> d + 0.15)"

text \<open>
  The loop invariant together with the fact that every selected question is a row of the
  question table.
\<close>

definition bank_ok :: "database \<Rightarrow> sel_state \<Rightarrow> bool" where
  "bank_ok db st = (used_ok st \<and> set (fst st) \<subseteq> set (questions db))"

section \<open>Example data\<close>

text \<open>
  A small store used to run the definitions: one subject, three knowledge points, four
  questions and the graded answers of students 7 and 8.
\<close>

definition demo_question :: "int \<Rightarrow> string \<Rightarrow> real \<Rightarrow> real \<Rightarrow> question" where
  "demo_question i t d sc =
     \<lparr>q_id = i, q_subject_id = 1, q_content = [], q_answer = [], q_analysis = [],
      q_question_type = t, q_difficulty = d, q_score = sc\<rparr>"

definition demo_kp :: "int \<Rightarrow> string \<Rightarrow> knowledge_point" where
  "demo_kp i nm =
     \<lparr>kp_id = i, kp_subject_id = 1, kp_name = nm, kp_parent_id = None, kp_level = 1,
      kp_description = []\<rparr>"

definition demo_answer :: "int \<Rightarrow> int \<Rightarrow> int \<Rightarrow> bool \<Rightarrow> student_answer" where
  "demo_answer i student q ok =
     \<lparr>sa_id = i, sa_student_id = student, sa_exam_id = 1, sa_question_id = q,
      sa_student_answer = [], sa_score_obtained = 0, sa_is_correct = ok\<rparr>"

definition demo_db :: database where
  "demo_db =
     \<lparr>subjects = [\<lparr>subj_id = 1, subj_name = ''maths'', subj_category = ''science'',
                   subj_is_core = True\<rparr>],
      knowledge_points = [demo_kp 1 ''algebra'', demo_kp 2 ''geometry'', demo_kp 3 ''calculus''],
      questions = [demo_question 1 type_choice 0.3 4, demo_question 2 type_choice 0.5 4,
                   demo_question 3 type_fill_in 0.4 5, demo_question 4 type_short_answer 0.5 15],
      question_knowledge_rows =
        [\<lparr>qk_question_id = 1, qk_knowledge_point_id = 1, qk_weight = 1\<rparr>,
         \<lparr>qk_question_id = 2, qk_knowledge_point_id = 2, qk_weight = 1\<rparr>,
         \<lparr>qk_question_id = 3, qk_knowledge_point_id = 1, qk_weight = 1\<rparr>,
         \<lparr>qk_question_id = 4, qk_knowledge_point_id = 3, qk_weight = 1\<rparr>,
         \<lparr>qk_question_id = 4, qk_knowledge_point_id = 2, qk_weight = 1\<rparr>],
      student_answers =
        [demo_answer 1 7 1 False, demo_answer 2 7 2 True, demo_answer 3 7 3 False,
         demo_answer 4 7 4 False, demo_answer 5 8 1 True]\<rparr>"

definition demo_rng :: rng where
  "demo_rng = \<lparr>uniform = (\<lambda>_. 0), pick = (\<lambda>_. 0)\<rparr>"

definition demo_template :: distribution where
  "demo_template = [(type_choice, \<lparr>cfg_count = 3, cfg_score_each = 4\<rparr>),
                    (type_short_answer, \<lparr>cfg_count = 2, cfg_score_each = 15\<rparr>)]"

text \<open>
  A second store with the same attempt history for student 7: other answer ids, another
  student's answers, and no subjects or questions.
\<close>

definition demo_db_other :: database where
  "demo_db_other =
     demo_db\<lparr>subjects := [], questions := [],
             student_answers := [demo_answer 11 7 1 False, demo_answer 12 7 2 True,
                                 demo_answer 13 7 3 False, demo_answer 14 7 4 False,
                                 demo_answer 15 9 4 True]\<rparr>"

text \<open>
  The bank of the specification's scenario B: subject 1 with 12 choice, 4 fill-in and 6
  short-answer questions, all of difficulty 0.5, stored with the scores 4, 5 and 15 of the
  default 150-point template; and a second random generator.
\<close>

definition scenario_b_db :: database where
  "scenario_b_db =
     \<lparr>subjects = [\<lparr>subj_id = 1, subj_name = ''maths'', subj_category = ''science'',
                   subj_is_core = True\<rparr>],
      knowledge_points = [],
      questions =
        map (\<lambda>i. demo_question i type_choice 0.5 4) [1, 2, 3, 4, 5, 6, 7, 8, 9, 10, 11, 12]
        @ map (\<lambda>i. demo_question i type_fill_in 0.5 5) [13, 14, 15, 16]
        @ map (\<lambda>i. demo_question i type_short_answer 0.5 15) [17, 18, 19, 20, 21, 22],
      question_knowledge_rows = [],
      student_answers = []\<rparr>"

definition other_rng :: rng where
  "other_rng = \<lparr>uniform = (\<lambda>_. 0.9), pick = (\<lambda>n. n + 1)\<rparr>"

section \<open>Loops and totality\<close>

lemma fold_err_invariant:
  assumes "P s"
    and "\<And>x t. x \<in> set xs \<Longrightarrow> P t \<Longrightarrow> \<exists>t'. f x t = Inr t' \<and> P t'"
  shows "\<exists>s'. fold_err f xs s = Inr s' \<and> P s'"
  using assms
proof (induction xs arbitrary: s)
  case Nil
  then show ?case by simp
next
  case (Cons x xs)
  from Cons.prems obtain t where t: "f x s = Inr t" "P t"
    by (meson list.set_intros(1))
  have "\<exists>s'. fold_err f xs t = Inr s' \<and> P s'"
    by (rule Cons.IH) (use t Cons.prems in auto)
  with t show ?case by simp
qed

lemma fold_err_total:
  assumes "\<And>x t. \<exists>t'. f x t = Inr t'"
  shows "\<exists>s'. fold_err f xs s = Inr s'"
  using fold_err_invariant [of "\<lambda>_. True" s xs f] assms by auto

lemma py_setitem_at_present:
  "k \<in> fst ` set d \<Longrightarrow> \<exists>v. map_of d k = Some v \<and> py_setitem_at d k upd = Inr (AList.update k (upd v) d)"
  by (cases "map_of d k") (auto simp: py_setitem_at_def map_of_eq_None_iff)

lemma keys_update: "fst ` set (AList.update k v d) = insert k (fst ` set d)"
  by (simp add: dom_update)

lemma tally_kp_total: "\<exists>p. tally_kp subject_id answer kp perf = Inr p"
proof (cases "truthy_id subject_id \<and> Some (kp_subject_id kp) \<noteq> subject_id")
  case True
  then show ?thesis by (simp add: tally_kp_def)
next
  case False
  define perf1 where "perf1 = (if kp_id kp \<notin> fst ` set perf
               then AList.update (kp_id kp)
                      \<lparr>knowledge_point_id = kp_id kp, knowledge_point_name = kp_name kp,
                       kd_subject_id = kp_subject_id kp, kd_level = kp_level kp,
                       total_attempts = 0, correct_attempts = 0\<rparr> perf
               else perf)"
  have k1: "kp_id kp \<in> fst ` set perf1"
    by (simp add: perf1_def keys_update)
  from py_setitem_at_present [OF k1] obtain perf2 where
    p2: "py_setitem_at perf1 (kp_id kp) (\<lambda>d. d\<lparr>total_attempts := total_attempts d + 1\<rparr>) = Inr perf2"
    and k2: "kp_id kp \<in> fst ` set perf2"
    by (fastforce simp: keys_update)
  from py_setitem_at_present [OF k2] obtain perf3 where
    p3: "py_setitem_at perf2 (kp_id kp) (\<lambda>d. d\<lparr>correct_attempts := correct_attempts d + 1\<rparr>) = Inr perf3"
    by fastforce
  show ?thesis
    using False p2 p3 unfolding tally_kp_def Let_def perf1_def [symmetric]
    by (auto simp del: AList.update.simps)
qed

lemma rate_kp_total: "\<exists>ws'. rate_kp db d ws = Inr ws'"
  by (simp add: rate_kp_def py_truediv_def)

lemma analyze_student_weaknesses_total:
  "\<exists>ws. analyze_student_weaknesses db student_id subject_id = Inr ws"
proof -
  have inner: "\<exists>t'. fold_err (tally_kp subject_id a) ks t = Inr t'" for a ks t
    by (rule fold_err_total) (rule tally_kp_total)
  have "\<exists>perf. fold_err (\<lambda>answer. fold_err (tally_kp subject_id answer)
                     (get_question_knowledge_points db (sa_question_id answer)))
                  (get_student_all_answers db student_id) [] = Inr perf"
    by (rule fold_err_total) (rule inner)
  then obtain perf where perf: "fold_err (\<lambda>answer. fold_err (tally_kp subject_id answer)
                     (get_question_knowledge_points db (sa_question_id answer)))
                  (get_student_all_answers db student_id) [] = Inr perf" ..
  have "\<exists>ws. fold_err (rate_kp db) (map snd perf) [] = Inr ws"
    by (rule fold_err_total) (rule rate_kp_total)
  then obtain ws where ws: "fold_err (rate_kp db) (map snd perf) [] = Inr ws" ..
  show ?thesis
    by (simp add: analyze_student_weaknesses_def Let_def perf ws)
qed

lemma get_question_difficulty_target_Inr:
  "0 < n \<Longrightarrow>
   get_question_difficulty_target i n b =
     Inr (max 0.1 (b - 0.2) + (min 0.9 (b + 0.2) - max 0.1 (b - 0.2)) * (of_int i / of_int n))"
  by (simp add: get_question_difficulty_target_def py_truediv_def Let_def)

lemma get_question_difficulty_target_total:
  "\<exists>t. get_question_difficulty_target i n b = Inr t"
  by (simp add: get_question_difficulty_target_def py_truediv_def Let_def)

lemma not_Inl_total: "(\<And>e. x \<noteq> Inl e) \<Longrightarrow> \<exists>r. x = Inr r"
  by (cases x) auto

lemma choose_from_nonempty:
  "qs \<noteq> [] \<Longrightarrow>
   choose_from g qs queries
     = Inr (Some (qs ! (pick g 0 mod length qs)), g\<lparr>pick := (\<lambda>n. pick g (Suc n))\<rparr>, queries)"
  by (simp add: choose_from_def random_choice_def)

lemma select_question_not_Inl:
  "select_question db g subject_id t kps rg ex \<noteq> Inl e"
  unfolding select_question_def Let_def
  by (simp add: choose_from_nonempty split: option.splits)

lemma select_question_total:
  "\<exists>r. select_question db g subject_id t kps rg ex = Inr r"
  by (rule not_Inl_total) (rule select_question_not_Inl)

lemma fill_slot_total:
  "\<exists>st'. fill_slot db subject_id focus weak b t n i st = Inr st'"
proof -
  obtain sel used g where st: "st = (sel, used, g)" by (cases st) auto
  obtain d where d: "get_question_difficulty_target i n b = Inr d"
    using get_question_difficulty_target_total by blast
  show ?thesis
    unfolding st fill_slot.simps d Let_def
    by (simp add: select_question_not_Inl split: sum.splits option.splits)
qed

lemma fill_type_total:
  "\<exists>st'. fill_type db subject_id focus weak b entry st = Inr st'"
proof (cases entry)
  case (Pair t cfg)
  have "\<exists>st'. fold_err (fill_slot db subject_id focus weak b t (cfg_count cfg))
          (map int [0..<nat (cfg_count cfg)]) st = Inr st'"
    by (rule fold_err_total) (rule fill_slot_total)
  then show ?thesis by (simp add: Pair fill_type_def)
qed

lemma calculate_difficulty_stats_total:
  "\<exists>ds. calculate_difficulty_stats qs = Inr ds"
  by (simp add: calculate_difficulty_stats_def py_truediv_def Let_def)

lemma calculate_weakness_coverage_total:
  "\<exists>c. calculate_weakness_coverage db qs weak = Inr c"
  by (simp add: calculate_weakness_coverage_def py_truediv_def Let_def)

lemma labels_distinct:
  "label_easy \<noteq> label_medium" "label_easy \<noteq> label_hard" "label_medium \<noteq> label_hard"
  by (simp_all add: label_easy_def label_medium_def label_hard_def)

lemma generate_recommendations_total:
  "\<exists>rs. generate_recommendations qs ws cov = Inr rs"
proof (cases "qs = []")
  case True
  then show ?thesis by (simp add: generate_recommendations_def)
next
  case False
  then show ?thesis
    using labels_distinct
    by (simp add: generate_recommendations_def calculate_difficulty_stats_def py_truediv_def
        py_getitem_def Let_def)
qed

lemma generate_targeted_exam_total:
  "\<exists>r. generate_targeted_exam db g student_id subject_id total_score focus lvl tmpl = Inr r"
proof -
  obtain ws where ws: "analyze_student_weaknesses db student_id (Some subject_id) = Inr ws"
    using analyze_student_weaknesses_total by blast
  define weak where "weak = map knowledge_point_id (take 15 ws)"
  define d where "d = (case tmpl of None \<Rightarrow> get_default_distribution db subject_id total_score | Some d \<Rightarrow> d)"
  have "\<exists>st. fold_err (fill_type db subject_id focus weak (get_difficulty_target lvl)) d ([], [], g) = Inr st"
    by (rule fold_err_total) (rule fill_type_total)
  then obtain st where st: "fold_err (fill_type db subject_id focus weak (get_difficulty_target lvl)) d ([], [], g) = Inr st" ..
  obtain ds where ds: "calculate_difficulty_stats (fst st) = Inr ds"
    using calculate_difficulty_stats_total by blast
  obtain c where c: "calculate_weakness_coverage db (fst st) weak = Inr c"
    using calculate_weakness_coverage_total by blast
  obtain rs where rs: "generate_recommendations (fst st) ws c = Inr rs"
    using generate_recommendations_total by blast
  show ?thesis
    unfolding generate_targeted_exam_def Let_def
    by (simp add: ws weak_def [symmetric] d_def [symmetric] st ds c rs)
qed

lemma get_difficulty_target_other:
  "lvl \<notin> {''easy'', ''medium'', ''hard''} \<Longrightarrow> get_difficulty_target lvl = 0.5"
  by (simp add: get_difficulty_target_def)

lemma get_difficulty_target_medium: "get_difficulty_target ''medium'' = 0.5"
  by (simp add: get_difficulty_target_def)


section \<open>Claims\<close>

text \<open>
  C7. For every base difficulty in {0.3, 0.5, 0.7} and every type group of size \<open>n\<close>, the
  target of slot \<open>i\<close> is floor + (ceiling - floor) * (i / n) with
  floor = max(0.1, base - 0.2) and ceiling = min(0.9, base + 0.2), and within the group the
  targets are non-decreasing in the slot index: for slots \<open>i \<le> j\<close> of the group the target
  of \<open>i\<close> is at most the target of \<open>j\<close>.
\<close>

theorem slot_targets_gradient:
  assumes "b \<in> {0.3, 0.5, 0.7}" and "0 \<le> i" and "i \<le> j" and "j < n"
  shows "get_question_difficulty_target i n b
           = Inr (max 0.1 (b - 0.2) + (min 0.9 (b + 0.2) - max 0.1 (b - 0.2)) * (of_int i / of_int n))
       \<and> get_question_difficulty_target j n b
           = Inr (max 0.1 (b - 0.2) + (min 0.9 (b + 0.2) - max 0.1 (b - 0.2)) * (of_int j / of_int n))
       \<and> max 0.1 (b - 0.2) + (min 0.9 (b + 0.2) - max 0.1 (b - 0.2)) * (of_int i / of_int n)
           \<le> max 0.1 (b - 0.2) + (min 0.9 (b + 0.2) - max 0.1 (b - 0.2)) * (of_int j / of_int n)"
proof -
  have n: "0 < n" using assms by linarith
  have w: "0 \<le> min 0.9 (b + 0.2) - max 0.1 (b - 0.2)"
    using assms(1) by auto
  have "(of_int i :: real) / of_int n \<le> of_int j / of_int n"
    using assms n by (simp add: divide_right_mono)
  then have "(min 0.9 (b + 0.2) - max 0.1 (b - 0.2)) * (of_int i / of_int n)
           \<le> (min 0.9 (b + 0.2) - max 0.1 (b - 0.2)) * (of_int j / of_int n)"
    using w by (rule mult_left_mono)
  then show ?thesis
    using n by (simp add: get_question_difficulty_target_Inr)
qed

theorem slot_targets_gradient_witness:
  "(0.5::real) \<in> {0.3, 0.5, 0.7} \<and> (0::int) \<le> 1 \<and> (1::int) \<le> 2 \<and> (2::int) < 4
   \<and> get_question_difficulty_target 1 4 0.5 = Inr 0.4
   \<and> get_question_difficulty_target 2 4 0.5 = Inr 0.5"
  using slot_targets_gradient [of "0.5" 1 2 4] by simp

text \<open>
  C10. A difficulty level that is none of 'easy', 'medium', 'hard' is mapped to the numeric
  target 0.5, the composer then returns exactly what it returns for 'medium', and it
  returns a result rather than raising.
\<close>

theorem unknown_difficulty_level_is_medium:
  assumes "lvl \<notin> {''easy'', ''medium'', ''hard''}"
  shows "get_difficulty_target lvl = 0.5
       \<and> generate_targeted_exam db g student_id subject_id total_score focus lvl tmpl
           = generate_targeted_exam db g student_id subject_id total_score focus ''medium'' tmpl
       \<and> (\<exists>r. generate_targeted_exam db g student_id subject_id total_score focus lvl tmpl = Inr r)"
proof -
  have eq: "get_difficulty_target lvl = get_difficulty_target ''medium''"
    using assms by (simp add: get_difficulty_target_other get_difficulty_target_medium)
  have same: "generate_targeted_exam db g student_id subject_id total_score focus lvl tmpl
           = generate_targeted_exam db g student_id subject_id total_score focus ''medium'' tmpl"
    unfolding generate_targeted_exam_def eq ..
  have tot: "\<exists>r. generate_targeted_exam db g student_id subject_id total_score focus lvl tmpl = Inr r"
    by (rule generate_targeted_exam_total)
  from assms have "get_difficulty_target lvl = 0.5"
    by (rule get_difficulty_target_other)
  with same tot show ?thesis by blast
qed


theorem unknown_difficulty_level_is_medium_witness:
  "''expert'' \<notin> {''easy'', ''medium'', ''hard''}
   \<and> get_difficulty_target ''expert'' = 0.5
   \<and> generate_targeted_exam demo_db demo_rng 7 1 150 True ''expert'' None
       = generate_targeted_exam demo_db demo_rng 7 1 150 True ''medium'' None
   \<and> (\<exists>r. generate_targeted_exam demo_db demo_rng 7 1 150 True ''expert'' None = Inr r)"
proof -
  have h: "''expert'' \<notin> {''easy'', ''medium'', ''hard''}" by simp
  from unknown_difficulty_level_is_medium [OF h, of demo_db demo_rng 7 1 150 True None] h
  show ?thesis by blast
qed

text \<open>Unfolding rules for running the definitions on the example data.\<close>

lemmas demo_defs = demo_db_def demo_question_def demo_kp_def demo_answer_def demo_rng_def

lemmas eval_defs = analyze_student_weaknesses_def get_student_all_answers_def
     get_question_knowledge_points_def tally_kp_def py_setitem_at_def truthy_id_def Let_def
     rate_kp_def py_truediv_def lookup_subject_name_def get_all_subjects_def kp_data.defs
     generate_targeted_exam_def get_difficulty_target_def fill_type_def
     get_question_difficulty_target_def draw_use_weakness_def random_random_def
     select_question_def base_filters_def search_questions_def choose_from_def random_choice_def
     calculate_difficulty_stats_def calculate_weakness_coverage_def covered_weak_kps_def
     generate_recommendations_def py_getitem_def py_round2_def round_half_even_def
     type_choice_def type_fill_in_def type_short_answer_def label_easy_def label_hard_def label_medium_def
     get_default_distribution_def upt_conv_Cons


text \<open>
  C4. A student with no answered attempts: the weakness ranker returns the empty list and
  the mastery estimator returns the empty map, and both return (neither raises).
\<close>

theorem empty_history_gives_empty_results:
  assumes "get_student_all_answers db student_id = []"
  shows "analyze_student_weaknesses db student_id subject_id = Inr []
       \<and> get_knowledge_point_mastery db student_id = Inr []"
  using assms by (simp add: analyze_student_weaknesses_def get_knowledge_point_mastery_def)

theorem empty_history_gives_empty_results_witness:
  "get_student_all_answers demo_db 9 = []
   \<and> analyze_student_weaknesses demo_db 9 (Some 1) = Inr []
   \<and> get_knowledge_point_mastery demo_db 9 = Inr []"
proof -
  have h: "get_student_all_answers demo_db 9 = []"
    by (simp add: get_student_all_answers_def demo_defs)
  from empty_history_gives_empty_results [OF h, of "Some 1"] h show ?thesis by simp
qed


lemma round_half_even_lower: "of_int a \<le> x \<Longrightarrow> a \<le> round_half_even x"
proof -
  assume "of_int a \<le> x"
  then have "a \<le> \<lfloor>x\<rfloor>" by (simp add: le_floor_iff)
  then show ?thesis by (simp add: round_half_even_def Let_def)
qed

lemma round_half_even_upper: "x \<le> of_int b \<Longrightarrow> round_half_even x \<le> b"
proof -
  assume xb: "x \<le> of_int b"
  then have fb: "\<lfloor>x\<rfloor> \<le> b" by (simp add: floor_le_iff)
  show ?thesis
  proof (cases "\<lfloor>x\<rfloor> = b")
    case True
    then have "x - of_int \<lfloor>x\<rfloor> \<le> 0" using xb by simp
    then show ?thesis using True by (simp add: round_half_even_def Let_def)
  next
    case False
    with fb have "\<lfloor>x\<rfloor> + 1 \<le> b" by simp
    then show ?thesis by (simp add: round_half_even_def Let_def)
  qed
qed

lemma py_round2_unit: "0 \<le> x \<Longrightarrow> x \<le> 1 \<Longrightarrow> 0 \<le> py_round2 x \<and> py_round2 x \<le> 1"
proof -
  assume x: "0 \<le> x" "x \<le> 1"
  have "0 \<le> round_half_even (x * 100)"
    by (rule round_half_even_lower) (use x in simp)
  moreover have "round_half_even (x * 100) \<le> 100"
    by (rule round_half_even_upper) (use x in simp)
  ultimately show ?thesis by (simp add: py_round2_def)
qed

lemma covered_inner_subset:
  "A \<subseteq> set weak \<Longrightarrow>
   fold (\<lambda>kp covered. if kp_id kp \<in> set weak then insert (kp_id kp) covered else covered) kps A
     \<subseteq> set weak"
  by (induction kps arbitrary: A) auto

lemma covered_outer_subset:
  "A \<subseteq> set weak \<Longrightarrow>
   fold (\<lambda>q. fold (\<lambda>kp covered. if kp_id kp \<in> set weak then insert (kp_id kp) covered
                                   else covered) (kps_of q)) qs A
     \<subseteq> set weak"
  by (induction qs arbitrary: A) (auto simp: covered_inner_subset)

lemma covered_weak_kps_subset: "covered_weak_kps db qs weak \<subseteq> set weak"
  unfolding covered_weak_kps_def by (rule covered_outer_subset) simp

lemma card_covered_le: "card (covered_weak_kps db qs weak) \<le> length weak"
proof -
  have "card (covered_weak_kps db qs weak) \<le> card (set weak)"
    by (rule card_mono) (simp_all add: covered_weak_kps_subset)
  also have "\<dots> \<le> length weak" by (rule card_length)
  finally show ?thesis .
qed

lemma calculate_weakness_coverage_bounds:
  assumes "calculate_weakness_coverage db qs weak = Inr c"
  shows "0 \<le> coverage_rate c \<and> coverage_rate c \<le> 1 \<and> (weak = [] \<longrightarrow> coverage_rate c = 0)"
proof (cases "weak = []")
  case True
  with assms show ?thesis by (auto simp: calculate_weakness_coverage_def)
next
  case False
  then have len: "0 < length weak" by simp
  let ?r = "real (card (covered_weak_kps db qs weak)) / real (length weak)"
  have "0 \<le> ?r" by simp
  moreover have "?r \<le> 1" using card_covered_le [of db qs weak] len by simp
  ultimately have "0 \<le> py_round2 ?r \<and> py_round2 ?r \<le> 1" by (rule py_round2_unit)
  moreover have "coverage_rate c = py_round2 ?r"
    using assms False by (auto simp: calculate_weakness_coverage_def py_truediv_def Let_def)
  ultimately show ?thesis using False by simp
qed

lemma generate_targeted_exam_coverage:
  assumes "generate_targeted_exam db g student_id subject_id total_score focus lvl tmpl = Inr r"
  shows "\<exists>ws qs. analyze_student_weaknesses db student_id (Some subject_id) = Inr ws
            \<and> calculate_weakness_coverage db qs (map knowledge_point_id (take 15 ws))
                = Inr (weakness_coverage (fst r))"
  using assms unfolding generate_targeted_exam_def Let_def
  by (auto split: sum.splits)


text \<open>
  C5. For every composer run the reported coverage rate lies between 0 and 1, and it is 0
  when the weakness analysis at the start of the run found no weak knowledge point.
\<close>

theorem coverage_rate_bounds:
  assumes "generate_targeted_exam db g student_id subject_id total_score focus lvl tmpl = Inr r"
  shows "0 \<le> coverage_rate (weakness_coverage (fst r))
       \<and> coverage_rate (weakness_coverage (fst r)) \<le> 1
       \<and> (analyze_student_weaknesses db student_id (Some subject_id) = Inr []
            \<longrightarrow> coverage_rate (weakness_coverage (fst r)) = 0)"
proof -
  from generate_targeted_exam_coverage [OF assms] obtain ws qs where
    ws: "analyze_student_weaknesses db student_id (Some subject_id) = Inr ws"
    and c: "calculate_weakness_coverage db qs (map knowledge_point_id (take 15 ws))
              = Inr (weakness_coverage (fst r))"
    by blast
  from calculate_weakness_coverage_bounds [OF c] ws show ?thesis by auto
qed


lemma demo_run_easy:
  "generate_targeted_exam demo_db demo_rng 7 1 100 True ''easy'' (Some demo_template) = Inr r
   \<Longrightarrow> map q_id (exam_questions (fst r)) = [1, 2]
     \<and> weakness_coverage (fst r) = \<lparr>covered_count = 2, total_count = 3, coverage_rate = 0.67\<rparr>"
  by (auto simp add: eval_defs demo_defs demo_template_def)

theorem coverage_rate_bounds_witness:
  "\<exists>r. generate_targeted_exam demo_db demo_rng 7 1 100 True ''easy'' (Some demo_template) = Inr r
       \<and> coverage_rate (weakness_coverage (fst r)) = 0.67
       \<and> 0 \<le> coverage_rate (weakness_coverage (fst r))
       \<and> coverage_rate (weakness_coverage (fst r)) \<le> 1"
proof -
  obtain r where r: "generate_targeted_exam demo_db demo_rng 7 1 100 True ''easy''
                       (Some demo_template) = Inr r"
    using generate_targeted_exam_total by blast
  from demo_run_easy [OF r] coverage_rate_bounds [OF r] r show ?thesis by auto
qed

lemma search_questions_restricted_linked:
  assumes "f_knowledge_point_ids f = Some kps" and "kps \<noteq> []"
    and "q \<in> set (search_questions db f)"
  shows "\<exists>qk \<in> set (question_knowledge_rows db).
           qk_question_id qk = q_id q \<and> qk_knowledge_point_id qk \<in> set kps"
  using assms by (auto simp: search_questions_def Let_def)

lemma choose_from_member:
  "qs \<noteq> [] \<Longrightarrow> \<exists>q g'. choose_from g qs queries = Inr (Some q, g', queries) \<and> q \<in> set qs"
  by (simp add: choose_from_nonempty)


text \<open>
  C8. A slot restricted to weak knowledge points whose restricted query finds nothing:
  \<^verbatim>\<open>_select_question\<close> makes exactly two queries, the restricted one and then the same
  filter with the knowledge-point restriction removed (same type, same difficulty window,
  same exclusion list), and the slot's result is drawn from the second: an element of its
  result, or nothing when that is empty too. The query itself never widens: every question a
  restricted query returns is linked to one of the requested knowledge points.
\<close>

theorem weak_restricted_fallback:
  assumes "kps \<noteq> []"
    and "search_questions db
           ((base_filters subject_id t rg ex)\<lparr>f_knowledge_point_ids := Some kps\<rparr>) = []"
  shows "\<exists>q g' restricted.
           restricted = (base_filters subject_id t rg ex)\<lparr>f_knowledge_point_ids := Some kps\<rparr>
         \<and> select_question db g subject_id t (Some kps) rg ex
             = Inr (q, g', [restricted, restricted\<lparr>f_knowledge_point_ids := None\<rparr>])
         \<and> (case q of
               None \<Rightarrow> search_questions db (restricted\<lparr>f_knowledge_point_ids := None\<rparr>) = []
             | Some x \<Rightarrow> x \<in> set (search_questions db (restricted\<lparr>f_knowledge_point_ids := None\<rparr>)))
         \<and> f_question_type restricted = Some t
         \<and> f_min_difficulty restricted = Some (fst rg)
         \<and> f_max_difficulty restricted = Some (snd rg)
         \<and> f_exclude_ids restricted = Some (case ex of None \<Rightarrow> [] | Some e \<Rightarrow> e)
         \<and> (\<forall>x \<in> set (search_questions db (f\<lparr>f_knowledge_point_ids := Some kps\<rparr>)).
               \<exists>qk \<in> set (question_knowledge_rows db).
                 qk_question_id qk = q_id x \<and> qk_knowledge_point_id qk \<in> set kps)"
proof -
  let ?flt = "base_filters subject_id t rg ex"
  let ?r = "?flt\<lparr>f_knowledge_point_ids := Some kps\<rparr>"
  have widen: "?r\<lparr>f_knowledge_point_ids := None\<rparr> = ?flt"
    by (simp add: base_filters_def)
  have unfold_sel: "select_question db g subject_id t (Some kps) rg ex
      = (if search_questions db ?flt \<noteq> []
         then choose_from g (search_questions db ?flt) [?r, ?flt]
         else Inr (None, g, [?r, ?flt]))"
    using assms by (simp add: select_question_def Let_def)
  have sel: "\<exists>q g'. select_question db g subject_id t (Some kps) rg ex = Inr (q, g', [?r, ?flt])
         \<and> (case q of None \<Rightarrow> search_questions db ?flt = []
             | Some x \<Rightarrow> x \<in> set (search_questions db ?flt))"
  proof (cases "search_questions db ?flt = []")
    case True
    then show ?thesis unfolding unfold_sel by simp
  next
    case False
    from choose_from_member [OF False, of g "[?r, ?flt]"] obtain q g' where
      "choose_from g (search_questions db ?flt) [?r, ?flt] = Inr (Some q, g', [?r, ?flt])"
      "q \<in> set (search_questions db ?flt)" by blast
    then show ?thesis unfolding unfold_sel using False by simp
  qed
  have fields: "f_question_type ?r = Some t \<and> f_min_difficulty ?r = Some (fst rg)
         \<and> f_max_difficulty ?r = Some (snd rg)
         \<and> f_exclude_ids ?r = Some (case ex of None \<Rightarrow> [] | Some e \<Rightarrow> e)"
    by (simp add: base_filters_def)
  have linked: "\<forall>x \<in> set (search_questions db (f\<lparr>f_knowledge_point_ids := Some kps\<rparr>)).
               \<exists>qk \<in> set (question_knowledge_rows db).
                 qk_question_id qk = q_id x \<and> qk_knowledge_point_id qk \<in> set kps"
  proof
    fix x assume "x \<in> set (search_questions db (f\<lparr>f_knowledge_point_ids := Some kps\<rparr>))"
    then show "\<exists>qk \<in> set (question_knowledge_rows db).
                 qk_question_id qk = q_id x \<and> qk_knowledge_point_id qk \<in> set kps"
      by (rule search_questions_restricted_linked [rotated 2]) (simp_all add: assms(1))
  qed
  from sel obtain q g' where q: "select_question db g subject_id t (Some kps) rg ex
       = Inr (q, g', [?r, ?r\<lparr>f_knowledge_point_ids := None\<rparr>])"
     "(case q of None \<Rightarrow> search_questions db (?r\<lparr>f_knowledge_point_ids := None\<rparr>) = []
             | Some x \<Rightarrow> x \<in> set (search_questions db (?r\<lparr>f_knowledge_point_ids := None\<rparr>)))"
    unfolding widen by blast
  show ?thesis
    apply (rule exI [of _ q])
    apply (rule exI [of _ g'])
    apply (rule exI [of _ ?r])
    using q fields linked by simp
qed

theorem weak_restricted_fallback_witness:
  "[3::int] \<noteq> []
   \<and> search_questions demo_db
        ((base_filters 1 type_choice (1 / 5, 3 / 5) (Some [1]))\<lparr>f_knowledge_point_ids := Some [3]\<rparr>) = []
   \<and> (\<exists>g'. select_question demo_db demo_rng 1 type_choice (Some [3]) (1 / 5, 3 / 5) (Some [1])
          = Inr (Some (demo_question 2 type_choice (1 / 2) 4), g',
                 [(base_filters 1 type_choice (1 / 5, 3 / 5) (Some [1]))\<lparr>f_knowledge_point_ids := Some [3]\<rparr>,
                  base_filters 1 type_choice (1 / 5, 3 / 5) (Some [1])])
        \<and> demo_question 2 type_choice (1 / 2) 4
            \<in> set (search_questions demo_db (base_filters 1 type_choice (1 / 5, 3 / 5) (Some [1]))))"
proof -
  let ?flt = "base_filters 1 type_choice (1 / 5, 3 / 5) (Some [1])"
  have h1: "[3::int] \<noteq> []" by simp
  have h2: "search_questions demo_db (?flt\<lparr>f_knowledge_point_ids := Some [3]\<rparr>) = []"
    by (simp add: search_questions_def base_filters_def demo_defs type_choice_def
        type_fill_in_def type_short_answer_def)
  have v: "fst (projr (select_question demo_db demo_rng 1 type_choice (Some [3]) (1 / 5, 3 / 5) (Some [1])))
           = Some (demo_question 2 type_choice (1 / 2) 4)"
    by (simp add: eval_defs demo_defs)
  from weak_restricted_fallback [OF h1 h2, where g = demo_rng and f = ?flt]
  obtain q g' r where r: "r = ?flt\<lparr>f_knowledge_point_ids := Some [3]\<rparr>"
    and s: "select_question demo_db demo_rng 1 type_choice (Some [3]) (1 / 5, 3 / 5) (Some [1])
          = Inr (q, g', [r, r\<lparr>f_knowledge_point_ids := None\<rparr>])"
    and m: "(case q of None \<Rightarrow> search_questions demo_db (r\<lparr>f_knowledge_point_ids := None\<rparr>) = []
             | Some x \<Rightarrow> x \<in> set (search_questions demo_db (r\<lparr>f_knowledge_point_ids := None\<rparr>)))"
    by blast
  have w: "?flt\<lparr>f_knowledge_point_ids := Some [3], f_knowledge_point_ids := None\<rparr> = ?flt"
    by (simp add: base_filters_def)
  from v s have q: "q = Some (demo_question 2 type_choice (1 / 2) 4)" by simp
  from m have m': "demo_question 2 type_choice (1 / 2) 4 \<in> set (search_questions demo_db ?flt)"
    unfolding q r w by simp
  from s have s': "select_question demo_db demo_rng 1 type_choice (Some [3]) (1 / 5, 3 / 5) (Some [1])
          = Inr (Some (demo_question 2 type_choice (1 / 2) 4), g',
                 [?flt\<lparr>f_knowledge_point_ids := Some [3]\<rparr>, ?flt])"
    unfolding q r w .
  from h1 h2 s' m' show ?thesis by blast
qed

lemma search_questions_restricted_subset:
  "set (search_questions db (f\<lparr>f_knowledge_point_ids := Some k\<rparr>))
     \<subseteq> set (search_questions db (f\<lparr>f_knowledge_point_ids := None\<rparr>))"
  by (auto simp: search_questions_def Let_def)

lemma select_question_no_candidates:
  assumes "search_questions db (base_filters subject_id t rg ex) = []"
  shows "\<exists>tr. select_question db g subject_id t kps rg ex = Inr (None, g, tr)"
proof -
  have same: "(base_filters subject_id t rg ex)\<lparr>f_knowledge_point_ids := None\<rparr>
              = base_filters subject_id t rg ex"
    by (simp add: base_filters_def)
  have b: "search_questions db
             ((base_filters subject_id t rg ex)\<lparr>f_knowledge_point_ids := Some k\<rparr>) = []" for k
    using search_questions_restricted_subset
            [where db = db and f = "base_filters subject_id t rg ex" and k = k] assms
    unfolding same by simp
  show ?thesis
    by (simp add: select_question_def Let_def assms b split: option.splits)
qed

lemma fill_slot_no_candidates:
  assumes "get_question_difficulty_target i n b = Inr d"
    and "search_questions db (base_filters subject_id t (d - 0.15, d + 0.15) (Some [])) = []"
  shows "\<exists>g'. fill_slot db subject_id focus weak b t n i ([], [], g) = Inr ([], [], g')"
proof -
  let ?g1 = "snd (draw_use_weakness focus weak g)"
  from select_question_no_candidates [OF assms(2)] obtain tr where
    "select_question db ?g1 subject_id t
       (if fst (draw_use_weakness focus weak g) then Some weak else None)
       (d - 0.15, d + 0.15) (Some []) = Inr (None, ?g1, tr)"
    by blast
  then show ?thesis
    by (simp add: assms(1) Let_def)
qed

lemma fill_type_no_candidates:
  assumes "\<forall>i d. 0 \<le> i \<longrightarrow> i < cfg_count cfg
             \<longrightarrow> get_question_difficulty_target i (cfg_count cfg) b = Inr d
             \<longrightarrow> search_questions db
                   (base_filters subject_id t (d - 0.15, d + 0.15) (Some [])) = []"
    and "fst st = [] \<and> fst (snd st) = []"
  shows "\<exists>st'. fill_type db subject_id focus weak b (t, cfg) st = Inr st'
           \<and> fst st' = [] \<and> fst (snd st') = []"
proof -
  have "\<exists>st'. fold_err (fill_slot db subject_id focus weak b t (cfg_count cfg))
          (map int [0..<nat (cfg_count cfg)]) st = Inr st'
          \<and> (fst st' = [] \<and> fst (snd st') = [])"
  proof (rule fold_err_invariant [where P = "\<lambda>s. fst s = [] \<and> fst (snd s) = []"])
    show "fst st = [] \<and> fst (snd st) = []" by (rule assms(2))
  next
    fix x and s :: sel_state
    assume x: "x \<in> set (map int [0..<nat (cfg_count cfg)])"
      and "fst s = [] \<and> fst (snd s) = []"
    then obtain g where s: "s = ([], [], g)" by (cases s) auto
    from x have range: "0 \<le> x" "x < cfg_count cfg" by auto
    obtain d where d: "get_question_difficulty_target x (cfg_count cfg) b = Inr d"
      using get_question_difficulty_target_total by blast
    with assms(1) range
    have "search_questions db (base_filters subject_id t (d - 0.15, d + 0.15) (Some [])) = []"
      by blast
    with d obtain g' where
      "fill_slot db subject_id focus weak b t (cfg_count cfg) x ([], [], g) = Inr ([], [], g')"
      using fill_slot_no_candidates by blast
    then show "\<exists>t'. fill_slot db subject_id focus weak b t (cfg_count cfg) x s = Inr t'
                 \<and> (fst t' = [] \<and> fst (snd t') = [])"
      unfolding s by simp
  qed
  then show ?thesis by (simp add: fill_type_def)
qed

text \<open>
  C6. When every slot query of the run returns no candidates, the composer returns a
  result (it does not raise) whose question list is empty, whose count and actual total
  score are 0 and whose recommendation list is the single message that the bank is
  insufficient. The slot queries are taken slot by slot: for each entry of the template in
  use and each slot index of the entry, the query for the entry's type and the slot's
  difficulty window, with nothing excluded yet, is empty. (A slot's query restricted to
  weak knowledge points returns a subset of it, so it is empty as well.) The bank may
  hold questions of the subject that no slot asks for.
\<close>

theorem empty_bank_degrades_gracefully:
  assumes "\<forall>t cfg i d.
             (t, cfg) \<in> set (case tmpl of
                                None \<Rightarrow> get_default_distribution db subject_id total_score
                              | Some q \<Rightarrow> q)
             \<longrightarrow> 0 \<le> i \<longrightarrow> i < cfg_count cfg
             \<longrightarrow> get_question_difficulty_target i (cfg_count cfg) (get_difficulty_target lvl)
                   = Inr d
             \<longrightarrow> search_questions db
                   (base_filters subject_id t (d - 0.15, d + 0.15) (Some [])) = []"
  shows "\<exists>r. generate_targeted_exam db g student_id subject_id total_score focus lvl tmpl = Inr r
           \<and> exam_questions (fst r) = []
           \<and> actual_count (fst r) = 0
           \<and> exam_total_score (fst r) = 0
           \<and> recommendations (fst r) = [BankInsufficient]"
proof -
  obtain ws where ws: "analyze_student_weaknesses db student_id (Some subject_id) = Inr ws"
    using analyze_student_weaknesses_total by blast
  define weak where "weak = map knowledge_point_id (take 15 ws)"
  define qd where "qd = (case tmpl of
                           None \<Rightarrow> get_default_distribution db subject_id total_score
                         | Some q \<Rightarrow> q)"
  have "\<exists>st. fold_err (fill_type db subject_id focus weak (get_difficulty_target lvl)) qd
                ([], [], g) = Inr st
             \<and> (fst st = [] \<and> fst (snd st) = [])"
  proof (rule fold_err_invariant [where P = "\<lambda>s. fst s = [] \<and> fst (snd s) = []"])
    show "fst (([], [], g) :: sel_state) = [] \<and> fst (snd (([], [], g) :: sel_state)) = []"
      by simp
  next
    fix x and s :: sel_state
    assume x: "x \<in> set qd" and s: "fst s = [] \<and> fst (snd s) = []"
    obtain t cfg where e: "x = (t, cfg)" by (cases x) auto
    have "\<forall>i d. 0 \<le> i \<longrightarrow> i < cfg_count cfg
             \<longrightarrow> get_question_difficulty_target i (cfg_count cfg) (get_difficulty_target lvl)
                   = Inr d
             \<longrightarrow> search_questions db
                   (base_filters subject_id t (d - 0.15, d + 0.15) (Some [])) = []"
      using assms x unfolding e qd_def by blast
    then show "\<exists>t'. fill_type db subject_id focus weak (get_difficulty_target lvl) x s = Inr t'
                 \<and> (fst t' = [] \<and> fst (snd t') = [])"
      unfolding e using s by (rule fill_type_no_candidates)
  qed
  then obtain st where st: "fold_err (fill_type db subject_id focus weak (get_difficulty_target lvl))
                              qd ([], [], g) = Inr st" and e: "fst st = []" by blast
  obtain c where c: "calculate_weakness_coverage db [] weak = Inr c"
    using calculate_weakness_coverage_total by blast
  have "generate_targeted_exam db g student_id subject_id total_score focus lvl tmpl
        = Inr (\<lparr>exam_questions = [], exam_total_score = 0, actual_count = 0,
                difficulty_stats = \<lparr>average = 0, distribution = []\<rparr>,
                weakness_coverage = c, recommendations = [BankInsufficient],
                weaknesses_analyzed = take 10 ws\<rparr>, snd (snd st))"
    unfolding generate_targeted_exam_def Let_def
    by (simp add: ws weak_def [symmetric] qd_def [symmetric] st e c
        calculate_difficulty_stats_def generate_recommendations_def)
  then show ?thesis by simp
qed

theorem empty_bank_degrades_gracefully_witness:
  "get_question_difficulty_target 0 1 (get_difficulty_target ''easy'') = Inr (1 / 10)
   \<and> search_questions demo_db
        (base_filters 1 type_short_answer (1 / 10 - 0.15, 1 / 10 + 0.15) (Some [])) = []
   \<and> search_questions demo_db
        (base_filters 1 type_short_answer (1 / 2 - 0.15, 1 / 2 + 0.15) (Some []))
       = [demo_question 4 type_short_answer (1 / 2) 15]
   \<and> (\<exists>r. generate_targeted_exam demo_db demo_rng 7 1 150 True ''easy''
              (Some [(type_short_answer, \<lparr>cfg_count = 1, cfg_score_each = 15\<rparr>)]) = Inr r
           \<and> exam_questions (fst r) = []
           \<and> actual_count (fst r) = 0
           \<and> exam_total_score (fst r) = 0
           \<and> recommendations (fst r) = [BankInsufficient])"
proof -
  have d0: "get_question_difficulty_target 0 1 (get_difficulty_target ''easy'') = Inr (1 / 10)"
    by (simp add: get_question_difficulty_target_def get_difficulty_target_def py_truediv_def)
  have q0: "search_questions demo_db
        (base_filters 1 type_short_answer (1 / 10 - 0.15, 1 / 10 + 0.15) (Some [])) = []"
    by (simp add: search_questions_def base_filters_def demo_defs type_choice_def
        type_fill_in_def type_short_answer_def)
  have q1: "search_questions demo_db
        (base_filters 1 type_short_answer (1 / 2 - 0.15, 1 / 2 + 0.15) (Some []))
       = [demo_question 4 type_short_answer (1 / 2) 15]"
    by (simp add: search_questions_def base_filters_def demo_defs type_choice_def
        type_fill_in_def type_short_answer_def)
  have h: "\<forall>t cfg i d.
             (t, cfg) \<in> set (case Some [(type_short_answer, \<lparr>cfg_count = 1, cfg_score_each = 15\<rparr>)] of
                                None \<Rightarrow> get_default_distribution demo_db 1 150
                              | Some q \<Rightarrow> q)
             \<longrightarrow> 0 \<le> i \<longrightarrow> i < cfg_count cfg
             \<longrightarrow> get_question_difficulty_target i (cfg_count cfg) (get_difficulty_target ''easy'')
                   = Inr d
             \<longrightarrow> search_questions demo_db
                   (base_filters 1 t (d - 0.15, d + 0.15) (Some [])) = []"
  proof (intro allI impI)
    fix t cfg i d
    assume e: "(t, cfg) \<in> set (case Some [(type_short_answer,
                                   \<lparr>cfg_count = 1, cfg_score_each = 15\<rparr>)] of
                                None \<Rightarrow> get_default_distribution demo_db 1 150
                              | Some q \<Rightarrow> q)"
      and i: "0 \<le> i" "i < cfg_count cfg"
      and d: "get_question_difficulty_target i (cfg_count cfg) (get_difficulty_target ''easy'')
                = Inr d"
    from e have t: "t = type_short_answer" and c: "cfg_count cfg = 1" by auto
    from i c have i0: "i = 0" by simp
    from d d0 have dv: "d = 1 / 10" unfolding c i0 by simp
    show "search_questions demo_db (base_filters 1 t (d - 0.15, d + 0.15) (Some [])) = []"
      unfolding t dv by (rule q0)
  qed
  from empty_bank_degrades_gracefully [OF h, of demo_rng 7 True]
  have r: "\<exists>r. generate_targeted_exam demo_db demo_rng 7 1 150 True ''easy''
              (Some [(type_short_answer, \<lparr>cfg_count = 1, cfg_score_each = 15\<rparr>)]) = Inr r
           \<and> exam_questions (fst r) = []
           \<and> actual_count (fst r) = 0
           \<and> exam_total_score (fst r) = 0
           \<and> recommendations (fst r) = [BankInsufficient]" .
  show ?thesis by (intro conjI d0 q0 q1 r)
qed

declare fill_slot.simps [simp del]

lemma search_questions_excluded:
  assumes "q \<in> set (search_questions db f)" and "f_exclude_ids f = Some ex"
  shows "q_id q \<notin> set ex"
  using assms by (auto simp: search_questions_def Let_def split: option.splits if_splits)

lemma select_question_source:
  assumes "select_question db g subject_id t kps rg ex = Inr (Some q, g', tr)"
  shows "\<exists>k. q \<in> set (search_questions db
                 ((base_filters subject_id t rg ex)\<lparr>f_knowledge_point_ids := k\<rparr>))"
proof -
  let ?flt = "base_filters subject_id t rg ex"
  have same: "?flt\<lparr>f_knowledge_point_ids := None\<rparr> = ?flt"
    by (simp add: base_filters_def)
  have pick_mem: "qs \<noteq> [] \<Longrightarrow> choose_from g qs queries = Inr (Some q, g', tr) \<Longrightarrow> q \<in> set qs"
    for qs queries
    by (auto simp: choose_from_nonempty)
  have "q \<in> set (search_questions db ?flt)
        \<or> (\<exists>k. q \<in> set (search_questions db (?flt\<lparr>f_knowledge_point_ids := Some k\<rparr>)))"
    using assms pick_mem unfolding select_question_def Let_def
    by (auto split: option.splits if_splits)
  then show ?thesis using same by metis
qed

lemma select_question_fresh:
  assumes "select_question db g subject_id t kps rg (Some used) = Inr (Some q, g', tr)"
  shows "q_id q \<notin> set used"
proof -
  from select_question_source [OF assms] obtain k where
    "q \<in> set (search_questions db
                 ((base_filters subject_id t rg (Some used))\<lparr>f_knowledge_point_ids := k\<rparr>))" ..
  then show ?thesis
    by (rule search_questions_excluded) (simp add: base_filters_def)
qed

lemma fill_slot_step:
  "\<exists>q g'. fill_slot db subject_id focus weak b t n i (sel, used, g)
            = Inr (case q of None \<Rightarrow> (sel, used, g') | Some x \<Rightarrow> (sel @ [x], used @ [q_id x], g'))
         \<and> (\<exists>d kps g1 tr. get_question_difficulty_target i n b = Inr d
               \<and> select_question db g1 subject_id t kps (d - 0.15, d + 0.15) (Some used)
                    = Inr (q, g', tr)
               \<and> (kps = None \<or> (kps = Some weak \<and> focus \<and> weak \<noteq> [])))"
proof -
  obtain d where d: "get_question_difficulty_target i n b = Inr d"
    using get_question_difficulty_target_total by blast
  define g1 where "g1 = snd (draw_use_weakness focus weak g)"
  define kps where "kps = (if fst (draw_use_weakness focus weak g) then Some weak else None)"
  obtain r where r: "select_question db g1 subject_id t kps (d - 0.15, d + 0.15) (Some used) = Inr r"
    using select_question_total by blast
  obtain q g' tr where rr: "r = (q, g', tr)" by (cases r) auto
  have k: "kps = None \<or> (kps = Some weak \<and> focus \<and> weak \<noteq> [])"
    by (auto simp: kps_def draw_use_weakness_def)
  have "fill_slot db subject_id focus weak b t n i (sel, used, g)
          = Inr (case q of None \<Rightarrow> (sel, used, g') | Some x \<Rightarrow> (sel @ [x], used @ [q_id x], g'))"
    using r unfolding rr fill_slot.simps d Let_def g1_def [symmetric] kps_def [symmetric]
    by (simp split: option.splits)
  with d r rr k show ?thesis by blast
qed

lemma fill_slot_used_ok:
  assumes "used_ok st"
  shows "\<exists>st'. fill_slot db subject_id focus weak b t n i st = Inr st' \<and> used_ok st'"
proof -
  obtain sel used g where st: "st = (sel, used, g)" by (cases st) auto
  from fill_slot_step [of db subject_id focus weak b t n i sel used g]
  obtain q g' d kps g1 tr where
    f: "fill_slot db subject_id focus weak b t n i (sel, used, g)
            = Inr (case q of None \<Rightarrow> (sel, used, g') | Some x \<Rightarrow> (sel @ [x], used @ [q_id x], g'))"
    and s: "select_question db g1 subject_id t kps (d - 0.15, d + 0.15) (Some used)
                    = Inr (q, g', tr)"
    by blast
  show ?thesis
  proof (cases q)
    case None
    with f assms show ?thesis by (auto simp: st used_ok_def)
  next
    case (Some x)
    from s have "q_id x \<notin> set used" unfolding Some by (rule select_question_fresh)
    with f assms show ?thesis by (auto simp: st Some used_ok_def)
  qed
qed

lemma fill_type_used_ok:
  assumes "used_ok st"
  shows "\<exists>st'. fill_type db subject_id focus weak b entry st = Inr st' \<and> used_ok st'"
proof (cases entry)
  case (Pair t cfg)
  have "\<exists>st'. fold_err (fill_slot db subject_id focus weak b t (cfg_count cfg))
          (map int [0..<nat (cfg_count cfg)]) st = Inr st' \<and> used_ok st'"
  proof (rule fold_err_invariant [where P = used_ok])
    show "used_ok st" by (rule assms)
  next
    fix x s assume "used_ok s"
    then show "\<exists>t'. fill_slot db subject_id focus weak b t (cfg_count cfg) x s = Inr t' \<and> used_ok t'"
      by (rule fill_slot_used_ok)
  qed
  then show ?thesis by (simp add: Pair fill_type_def)
qed

lemma generate_targeted_exam_shape:
  assumes "generate_targeted_exam db g student_id subject_id total_score focus lvl tmpl = Inr r"
  shows "\<exists>ws st.
    analyze_student_weaknesses db student_id (Some subject_id) = Inr ws
    \<and> fold_err (fill_type db subject_id focus (map knowledge_point_id (take 15 ws))
                 (get_difficulty_target lvl))
         (case tmpl of None \<Rightarrow> get_default_distribution db subject_id total_score | Some d \<Rightarrow> d)
         ([], [], g) = Inr st
    \<and> exam_questions (fst r) = fst st
    \<and> exam_total_score (fst r) = sum_list (map q_score (fst st))
    \<and> actual_count (fst r) = length (fst st)
    \<and> calculate_weakness_coverage db (fst st) (map knowledge_point_id (take 15 ws))
         = Inr (weakness_coverage (fst r))
    \<and> generate_recommendations (fst st) ws (weakness_coverage (fst r))
         = Inr (recommendations (fst r))"
proof -
  obtain ws where ws: "analyze_student_weaknesses db student_id (Some subject_id) = Inr ws"
    using analyze_student_weaknesses_total by blast
  define weak where "weak = map knowledge_point_id (take 15 ws)"
  define d where "d = (case tmpl of None \<Rightarrow> get_default_distribution db subject_id total_score
                       | Some d \<Rightarrow> d)"
  have "\<exists>st. fold_err (fill_type db subject_id focus weak (get_difficulty_target lvl)) d ([], [], g)
               = Inr st"
    by (rule fold_err_total) (rule fill_type_total)
  then obtain st where st: "fold_err (fill_type db subject_id focus weak (get_difficulty_target lvl))
                              d ([], [], g) = Inr st" ..
  obtain ds where ds: "calculate_difficulty_stats (fst st) = Inr ds"
    using calculate_difficulty_stats_total by blast
  obtain c where c: "calculate_weakness_coverage db (fst st) weak = Inr c"
    using calculate_weakness_coverage_total by blast
  obtain rs where rs: "generate_recommendations (fst st) ws c = Inr rs"
    using generate_recommendations_total by blast
  have "generate_targeted_exam db g student_id subject_id total_score focus lvl tmpl
        = Inr (\<lparr>exam_questions = fst st, exam_total_score = sum_list (map q_score (fst st)),
                actual_count = length (fst st), difficulty_stats = ds,
                weakness_coverage = c, recommendations = rs,
                weaknesses_analyzed = take 10 ws\<rparr>, snd (snd st))"
    unfolding generate_targeted_exam_def Let_def
    by (simp add: ws weak_def [symmetric] d_def [symmetric] st ds c rs)
  with assms have r: "fst r = \<lparr>exam_questions = fst st,
                exam_total_score = sum_list (map q_score (fst st)),
                actual_count = length (fst st), difficulty_stats = ds,
                weakness_coverage = c, recommendations = rs,
                weaknesses_analyzed = take 10 ws\<rparr>" by auto
  show ?thesis
    apply (rule exI [of _ ws])
    apply (rule exI [of _ st])
    using ws st c rs by (simp add: r weak_def d_def)
qed

text \<open>
  C2. For every composer run (any student, subject, target score, difficulty level,
  template and any outcome of the random draws), the returned question list contains no
  repeated question identifier.
\<close>

theorem no_duplicate_questions:
  assumes "generate_targeted_exam db g student_id subject_id total_score focus lvl tmpl = Inr r"
  shows "distinct (map q_id (exam_questions (fst r)))"
proof -
  from generate_targeted_exam_shape [OF assms] obtain ws st where
    "analyze_student_weaknesses db student_id (Some subject_id) = Inr ws"
    and st: "fold_err (fill_type db subject_id focus (map knowledge_point_id (take 15 ws))
                 (get_difficulty_target lvl))
       (case tmpl of None \<Rightarrow> get_default_distribution db subject_id total_score | Some d \<Rightarrow> d)
       ([], [], g) = Inr st"
    and q: "exam_questions (fst r) = fst st"
    by (elim exE conjE) (rule that; assumption)
  have "\<exists>st'. fold_err (fill_type db subject_id focus (map knowledge_point_id (take 15 ws))
                 (get_difficulty_target lvl))
       (case tmpl of None \<Rightarrow> get_default_distribution db subject_id total_score | Some d \<Rightarrow> d)
       ([], [], g) = Inr st' \<and> used_ok st'"
  proof (rule fold_err_invariant [where P = used_ok])
    show "used_ok ([], [], g)" by (simp add: used_ok_def)
  next
    fix x s assume "used_ok s"
    then show "\<exists>t'. fill_type db subject_id focus (map knowledge_point_id (take 15 ws))
                 (get_difficulty_target lvl) x s = Inr t' \<and> used_ok t'"
      by (rule fill_type_used_ok)
  qed
  with st have "used_ok st" by simp
  then have "distinct (map q_id (fst st))" unfolding used_ok_def by (elim conjE) (erule subst)
  then show ?thesis unfolding q .
qed



lemma demo_run_medium:
  "map q_id (exam_questions (fst (projr
     (generate_targeted_exam demo_db demo_rng 7 1 150 False ''medium'' (Some demo_template)))))
   = [1, 2, 4]"
  by (simp add: eval_defs demo_defs demo_template_def fill_slot.simps)

theorem no_duplicate_questions_witness:
  "\<exists>r. generate_targeted_exam demo_db demo_rng 7 1 150 False ''medium'' (Some demo_template) = Inr r
       \<and> map q_id (exam_questions (fst r)) = [1, 2, 4]
       \<and> distinct (map q_id (exam_questions (fst r)))"
proof -
  obtain r where r: "generate_targeted_exam demo_db demo_rng 7 1 150 False ''medium''
                       (Some demo_template) = Inr r"
    using generate_targeted_exam_total by blast
  from demo_run_medium have v: "map q_id (exam_questions (fst r)) = [1, 2, 4]"
    unfolding r by simp
  have d: "distinct (map q_id (exam_questions (fst r)))"
    using r by (rule no_duplicate_questions)
  show ?thesis
    by (rule exI [of _ r]) (intro conjI r v d)
qed

lemma tally_stat_depends:
  assumes c: "sa_is_correct a = sa_is_correct a'" and k: "kp_id k = kp_id k'"
  shows "tally_stat a k st = tally_stat a' k' st"
  unfolding tally_stat_def c k ..

lemma tally_stats_depend:
  assumes "sa_is_correct a = sa_is_correct a'" and "map kp_id ks = map kp_id ks'"
  shows "fold_err (tally_stat a) ks st = fold_err (tally_stat a') ks' st"
proof -
  from assms(2) have "length ks = length ks'" by (rule map_eq_imp_length_eq)
  then show ?thesis using assms
  proof (induction ks ks' arbitrary: st rule: list_induct2)
    case Nil
    then show ?case by simp
  next
    case (Cons k ks k' ks')
    from Cons.prems have "tally_stat a k st = tally_stat a' k' st"
      by (intro tally_stat_depends) simp_all
    moreover from Cons.prems Cons.IH
    have "fold_err (tally_stat a) ks s = fold_err (tally_stat a') ks' s" for s
      by simp
    ultimately show ?case by (simp split: sum.splits)
  qed
qed

lemma tally_answers_depend:
  assumes "map (\<lambda>a. (sa_is_correct a, map kp_id (kps1 a))) xs
         = map (\<lambda>a. (sa_is_correct a, map kp_id (kps2 a))) ys"
  shows "fold_err (\<lambda>a. fold_err (tally_stat a) (kps1 a)) xs st
       = fold_err (\<lambda>a. fold_err (tally_stat a) (kps2 a)) ys st"
proof -
  from assms have "length xs = length ys" by (rule map_eq_imp_length_eq)
  then show ?thesis using assms
  proof (induction xs ys arbitrary: st rule: list_induct2)
    case Nil
    then show ?case by simp
  next
    case (Cons x xs y ys)
    from Cons.prems
    have "fold_err (tally_stat x) (kps1 x) st = fold_err (tally_stat y) (kps2 y) st"
      by (intro tally_stats_depend) simp_all
    moreover from Cons.prems Cons.IH
    have "fold_err (\<lambda>a. fold_err (tally_stat a) (kps1 a)) xs s
        = fold_err (\<lambda>a. fold_err (tally_stat a) (kps2 a)) ys s" for s
      by simp
    ultimately show ?case by (simp split: sum.splits)
  qed
qed

lemma tally_stat_total: "\<exists>s'. tally_stat a k st = Inr s'"
proof -
  define st1 where "st1 = (if kp_id k \<notin> fst ` set st then AList.update (kp_id k) (0, 0) st else st)"
  have k1: "kp_id k \<in> fst ` set st1" by (simp add: st1_def keys_update)
  from py_setitem_at_present [OF k1] obtain st2 where
    s2: "py_setitem_at st1 (kp_id k) (\<lambda>(c, t). (c, t + 1)) = Inr st2"
    and k2: "kp_id k \<in> fst ` set st2"
    by (fastforce simp: keys_update)
  from py_setitem_at_present [OF k2] obtain st3 where
    s3: "py_setitem_at st2 (kp_id k) (\<lambda>(c, t). (c + 1, t)) = Inr st3"
    by fastforce
  show ?thesis
    using s2 s3 unfolding tally_stat_def Let_def st1_def [symmetric]
    by (auto simp del: AList.update.simps)
qed

lemma mastery_entry_total: "\<exists>m'. mastery_entry e m = Inr m'"
  by (cases e) (simp add: mastery_entry_def py_truediv_def del: AList.update.simps)

lemma get_knowledge_point_mastery_total:
  "\<exists>m. get_knowledge_point_mastery db student_id = Inr m"
proof -
  have inner: "\<exists>t'. fold_err (tally_stat a) ks t = Inr t'" for a ks t
    by (rule fold_err_total) (rule tally_stat_total)
  have "\<exists>st. fold_err (\<lambda>answer. fold_err (tally_stat answer)
                   (get_question_knowledge_points db (sa_question_id answer)))
                (get_student_all_answers db student_id) [] = Inr st"
    by (rule fold_err_total) (rule inner)
  then obtain st where st: "fold_err (\<lambda>answer. fold_err (tally_stat answer)
                   (get_question_knowledge_points db (sa_question_id answer)))
                (get_student_all_answers db student_id) [] = Inr st" ..
  have "\<exists>m. fold_err mastery_entry st [] = Inr m"
    by (rule fold_err_total) (rule mastery_entry_total)
  then show ?thesis
    by (simp add: get_knowledge_point_mastery_def Let_def st)
qed

text \<open>
  C9. The mastery estimator is deterministic and carries no hidden state: its result is a
  function of the student's stored attempt history alone. Two stores that hold the same
  attempt history for the student give the same mastery ratios, whatever else they hold,
  and the estimator returns a value (it does not raise).
\<close>

theorem mastery_is_function_of_history:
  assumes "attempt_history db1 student_id = attempt_history db2 student_id"
  shows "get_knowledge_point_mastery db1 student_id = get_knowledge_point_mastery db2 student_id
       \<and> (\<exists>m. get_knowledge_point_mastery db1 student_id = Inr m)"
proof -
  have "fold_err (\<lambda>a. fold_err (tally_stat a) (get_question_knowledge_points db1 (sa_question_id a)))
          (get_student_all_answers db1 student_id) []
      = fold_err (\<lambda>a. fold_err (tally_stat a) (get_question_knowledge_points db2 (sa_question_id a)))
          (get_student_all_answers db2 student_id) []"
    by (rule tally_answers_depend) (use assms in \<open>simp add: attempt_history_def\<close>)
  then have "get_knowledge_point_mastery db1 student_id = get_knowledge_point_mastery db2 student_id"
    by (simp add: get_knowledge_point_mastery_def Let_def)
  then show ?thesis using get_knowledge_point_mastery_total by simp
qed

theorem mastery_is_function_of_history_witness:
  "attempt_history demo_db 7 = attempt_history demo_db_other 7
   \<and> get_knowledge_point_mastery demo_db 7 = Inr [(1, 0), (2, 1 / 2), (3, 0)]
   \<and> get_knowledge_point_mastery demo_db_other 7 = Inr [(1, 0), (2, 1 / 2), (3, 0)]"
proof -
  have h: "attempt_history demo_db 7 = attempt_history demo_db_other 7"
    by (simp add: attempt_history_def get_student_all_answers_def
        get_question_knowledge_points_def demo_defs demo_db_other_def)
  have v: "get_knowledge_point_mastery demo_db 7 = Inr [(1, 0), (2, 1 / 2), (3, 0)]"
    by (simp add: get_knowledge_point_mastery_def get_student_all_answers_def demo_defs
     get_question_knowledge_points_def tally_stat_def py_setitem_at_def Let_def
     mastery_entry_def py_truediv_def)
  from mastery_is_function_of_history [OF h]
  have e: "get_knowledge_point_mastery demo_db 7 = get_knowledge_point_mastery demo_db_other 7" ..
  from v have v2: "get_knowledge_point_mastery demo_db_other 7 = Inr [(1, 0), (2, 1 / 2), (3, 0)]"
    unfolding e .
  show ?thesis by (intro conjI h v v2)
qed

lemma keyed_by_id_update:
  "keyed_by_id al \<Longrightarrow> knowledge_point_id v = k \<Longrightarrow> keyed_by_id (AList.update k v al)"
  by (induction al) (auto simp: keyed_by_id_def)

lemma keyed_by_id_lookup:
  "keyed_by_id al \<Longrightarrow> map_of al k = Some v \<Longrightarrow> knowledge_point_id v = k"
  by (induction al) (auto simp: keyed_by_id_def split: if_splits)

lemma keyed_by_id_values:
  "keyed_by_id al \<Longrightarrow> map knowledge_point_id (map snd al) = map fst al"
  by (induction al) (auto simp: keyed_by_id_def)

lemma py_setitem_at_keeps:
  assumes "k \<in> fst ` set d" and "\<And>v. knowledge_point_id (upd v) = knowledge_point_id v"
  shows "\<exists>d'. py_setitem_at d k upd = Inr d' \<and> map fst d' = map fst d
            \<and> (keyed_by_id d \<longrightarrow> keyed_by_id d')"
proof -
  from py_setitem_at_present [OF assms(1)] obtain v where
    v: "map_of d k = Some v" and s: "py_setitem_at d k upd = Inr (AList.update k (upd v) d)"
    by blast
  have keys: "map fst (AList.update k (upd v) d) = map fst d"
    using assms(1) by (simp add: update_keys)
  have "keyed_by_id (AList.update k (upd v) d)" if "keyed_by_id d"
  proof (rule keyed_by_id_update [OF that])
    from that v have "knowledge_point_id v = k" by (rule keyed_by_id_lookup)
    then show "knowledge_point_id (upd v) = k" by (simp add: assms(2))
  qed
  with s keys show ?thesis by simp
qed

lemma tally_kp_keys:
  "\<exists>perf'. tally_kp subject_id answer kp perf = Inr perf'
     \<and> map fst perf'
         = (if truthy_id subject_id \<and> Some (kp_subject_id kp) \<noteq> subject_id then map fst perf
            else if kp_id kp \<in> set (map fst perf) then map fst perf
            else map fst perf @ [kp_id kp])
     \<and> (keyed_by_id perf \<longrightarrow> keyed_by_id perf')"
proof (cases "truthy_id subject_id \<and> Some (kp_subject_id kp) \<noteq> subject_id")
  case True
  then show ?thesis by (simp add: tally_kp_def)
next
  case False
  define perf1 where "perf1 = (if kp_id kp \<notin> fst ` set perf
               then AList.update (kp_id kp)
                      \<lparr>knowledge_point_id = kp_id kp, knowledge_point_name = kp_name kp,
                       kd_subject_id = kp_subject_id kp, kd_level = kp_level kp,
                       total_attempts = 0, correct_attempts = 0\<rparr> perf
               else perf)"
  have k1: "kp_id kp \<in> fst ` set perf1"
    by (simp add: perf1_def keys_update)
  have keys1: "map fst perf1 = (if kp_id kp \<in> set (map fst perf) then map fst perf
                                else map fst perf @ [kp_id kp])"
    by (simp add: perf1_def update_keys del: AList.update.simps)
  have inv1: "keyed_by_id perf1" if "keyed_by_id perf"
    using that by (simp add: perf1_def keyed_by_id_update del: AList.update.simps)
  from py_setitem_at_keeps [OF k1, of "\<lambda>d. d\<lparr>total_attempts := total_attempts d + 1\<rparr>"]
  obtain perf2 where
    p2: "py_setitem_at perf1 (kp_id kp) (\<lambda>d. d\<lparr>total_attempts := total_attempts d + 1\<rparr>) = Inr perf2"
    and keys2: "map fst perf2 = map fst perf1"
    and inv2: "keyed_by_id perf1 \<longrightarrow> keyed_by_id perf2"
    by auto
  have k2: "kp_id kp \<in> fst ` set perf2"
    using k1 keys2 by (metis set_map)
  from py_setitem_at_keeps [OF k2, of "\<lambda>d. d\<lparr>correct_attempts := correct_attempts d + 1\<rparr>"]
  obtain perf3 where
    p3: "py_setitem_at perf2 (kp_id kp) (\<lambda>d. d\<lparr>correct_attempts := correct_attempts d + 1\<rparr>) = Inr perf3"
    and keys3: "map fst perf3 = map fst perf2"
    and inv3: "keyed_by_id perf2 \<longrightarrow> keyed_by_id perf3"
    by auto
  have res: "tally_kp subject_id answer kp perf = Inr (if sa_is_correct answer then perf3 else perf2)"
    using False p2 p3 unfolding tally_kp_def Let_def perf1_def [symmetric]
    by (auto simp del: AList.update.simps)
  show ?thesis
    unfolding res using False keys1 keys2 keys3 inv1 inv2 inv3 by auto
qed

lemma tally_kps_keys:
  "\<exists>perf'. fold_err (tally_kp subject_id answer) kps perf = Inr perf'
     \<and> map fst perf'
         = fold (\<lambda>k ks. if k \<in> set ks then ks else ks @ [k])
             (map kp_id (filter (\<lambda>kp. \<not> (truthy_id subject_id \<and> Some (kp_subject_id kp) \<noteq> subject_id)) kps))
             (map fst perf)
     \<and> (keyed_by_id perf \<longrightarrow> keyed_by_id perf')"
proof (induction kps arbitrary: perf)
  case Nil
  show ?case by simp
next
  case (Cons kp kps)
  from tally_kp_keys [of subject_id answer kp perf] obtain p1 where
    p1: "tally_kp subject_id answer kp perf = Inr p1"
    and k1: "map fst p1
         = (if truthy_id subject_id \<and> Some (kp_subject_id kp) \<noteq> subject_id then map fst perf
            else if kp_id kp \<in> set (map fst perf) then map fst perf
            else map fst perf @ [kp_id kp])"
    and i1: "keyed_by_id perf \<longrightarrow> keyed_by_id p1"
    by blast
  from Cons.IH [of p1] obtain p2 where
    p2: "fold_err (tally_kp subject_id answer) kps p1 = Inr p2"
    and k2: "map fst p2
         = fold (\<lambda>k ks. if k \<in> set ks then ks else ks @ [k])
             (map kp_id (filter (\<lambda>kp. \<not> (truthy_id subject_id \<and> Some (kp_subject_id kp) \<noteq> subject_id)) kps))
             (map fst p1)"
    and i2: "keyed_by_id p1 \<longrightarrow> keyed_by_id p2"
    by blast
  have "fold_err (tally_kp subject_id answer) (kp # kps) perf = Inr p2"
    by (simp add: p1 p2)
  moreover have "map fst p2
         = fold (\<lambda>k ks. if k \<in> set ks then ks else ks @ [k])
             (map kp_id (filter (\<lambda>kp. \<not> (truthy_id subject_id \<and> Some (kp_subject_id kp) \<noteq> subject_id)) (kp # kps)))
             (map fst perf)"
    unfolding k2 k1 by simp
  ultimately show ?case using i1 i2 by blast
qed

lemma tally_answers_keys:
  "\<exists>perf'. fold_err (\<lambda>answer. fold_err (tally_kp subject_id answer) (kps_of answer)) answers perf
              = Inr perf'
     \<and> map fst perf'
         = fold (\<lambda>k ks. if k \<in> set ks then ks else ks @ [k])
             (concat (map (\<lambda>a. map kp_id (filter (\<lambda>kp. \<not> (truthy_id subject_id \<and> Some (kp_subject_id kp) \<noteq> subject_id)) (kps_of a))) answers))
             (map fst perf)
     \<and> (keyed_by_id perf \<longrightarrow> keyed_by_id perf')"
proof (induction answers arbitrary: perf)
  case Nil
  show ?case by simp
next
  case (Cons a answers)
  from tally_kps_keys [of subject_id a "kps_of a" perf] obtain p1 where
    p1: "fold_err (tally_kp subject_id a) (kps_of a) perf = Inr p1"
    and k1: "map fst p1
         = fold (\<lambda>k ks. if k \<in> set ks then ks else ks @ [k])
             (map kp_id (filter (\<lambda>kp. \<not> (truthy_id subject_id \<and> Some (kp_subject_id kp) \<noteq> subject_id)) (kps_of a)))
             (map fst perf)"
    and i1: "keyed_by_id perf \<longrightarrow> keyed_by_id p1"
    by blast
  from Cons.IH [of p1] obtain p2 where
    p2: "fold_err (\<lambda>answer. fold_err (tally_kp subject_id answer) (kps_of answer)) answers p1 = Inr p2"
    and k2: "map fst p2
         = fold (\<lambda>k ks. if k \<in> set ks then ks else ks @ [k])
             (concat (map (\<lambda>a. map kp_id (filter (\<lambda>kp. \<not> (truthy_id subject_id \<and> Some (kp_subject_id kp) \<noteq> subject_id)) (kps_of a))) answers))
             (map fst p1)"
    and i2: "keyed_by_id p1 \<longrightarrow> keyed_by_id p2"
    by blast
  have "fold_err (\<lambda>answer. fold_err (tally_kp subject_id answer) (kps_of answer)) (a # answers) perf
          = Inr p2"
    by (simp add: p1 p2)
  moreover have "map fst p2
         = fold (\<lambda>k ks. if k \<in> set ks then ks else ks @ [k])
             (concat (map (\<lambda>a. map kp_id (filter (\<lambda>kp. \<not> (truthy_id subject_id \<and> Some (kp_subject_id kp) \<noteq> subject_id)) (kps_of a))) (a # answers)))
             (map fst perf)"
    unfolding k2 k1 by simp
  ultimately show ?case using i1 i2 by blast
qed

lemma first_seen_fold_distinct:
  "distinct ks \<Longrightarrow> distinct (fold (\<lambda>k ks. if k \<in> set ks then ks else ks @ [k]) xs ks)"
  by (induction xs arbitrary: ks) auto

lemma distinct_first_seen: "distinct (first_seen xs)"
  unfolding first_seen_def by (rule first_seen_fold_distinct) simp

lemma rate_kps_result:
  "fold_err (rate_kp db) ds acc = Inr (acc @ map (weak_entry db) (filter is_weak ds))"
proof (induction ds arbitrary: acc)
  case Nil
  show ?case by simp
next
  case (Cons d ds)
  have "rate_kp db d acc = Inr (if is_weak d then acc @ [weak_entry db d] else acc)"
    by (simp add: rate_kp_def is_weak_def weak_entry_def py_truediv_def)
  then show ?case by (simp add: Cons.IH)
qed

lemma weak_entry_fields:
  "knowledge_point_id (weak_entry db d) = knowledge_point_id d"
  "mastery_rate (weak_entry db d)
     = real_of_int (correct_attempts d) / real_of_int (total_attempts d)"
  by (simp_all add: weak_entry_def kp_data.defs)

lemma map_filter_distinct_keys:
  assumes "distinct (map f xs)"
  shows "map f (filter P xs) = filter (\<lambda>k. k \<in> f ` {x \<in> set xs. P x}) (map f xs)"
  using assms
proof (induction xs)
  case Nil
  show ?case by simp
next
  case (Cons x xs)
  from Cons.prems have fresh: "f x \<notin> f ` set xs" and d: "distinct (map f xs)" by simp_all
  have same: "filter (\<lambda>k. k \<in> f ` {y \<in> set (x # xs). P y}) (map f xs)
            = filter (\<lambda>k. k \<in> f ` {y \<in> set xs. P y}) (map f xs)"
  proof (rule filter_cong [OF refl])
    fix k assume "k \<in> set (map f xs)"
    then have "k \<in> f ` set xs" by simp
    with fresh have "k \<noteq> f x" by blast
    then show "(k \<in> f ` {y \<in> set (x # xs). P y}) = (k \<in> f ` {y \<in> set xs. P y})"
      by auto
  qed
  show ?case
  proof (cases "P x")
    case True
    then show ?thesis using Cons.IH [OF d] same by simp
  next
    case False
    with fresh have "f x \<notin> f ` {y \<in> set (x # xs). P y}" by auto
    then show ?thesis using False Cons.IH [OF d] same by simp
  qed
qed

lemma analyze_student_weaknesses_result:
  assumes "get_student_all_answers db student_id \<noteq> []"
  shows "\<exists>perf. keyed_by_id perf
           \<and> map fst perf = encounter_order db student_id subject_id
           \<and> analyze_student_weaknesses db student_id subject_id
               = Inr (sort_key mastery_rate (map (weak_entry db) (filter is_weak (map snd perf))))"
proof -
  from tally_answers_keys [of subject_id "\<lambda>a. get_question_knowledge_points db (sa_question_id a)"
      "get_student_all_answers db student_id" "[]"]
  obtain perf where
    p: "fold_err (\<lambda>answer. fold_err (tally_kp subject_id answer)
                    (get_question_knowledge_points db (sa_question_id answer)))
          (get_student_all_answers db student_id) [] = Inr perf"
    and k: "map fst perf = encounter_order db student_id subject_id"
    and i: "keyed_by_id perf"
    unfolding encounter_order_def first_seen_def by (auto simp: keyed_by_id_def)
  have "analyze_student_weaknesses db student_id subject_id
          = Inr (sort_key mastery_rate (map (weak_entry db) (filter is_weak (map snd perf))))"
    using assms by (simp add: analyze_student_weaknesses_def Let_def p rate_kps_result)
  with k i show ?thesis by blast
qed

lemma demo_ranking:
  "map knowledge_point_id (projr (analyze_student_weaknesses demo_db 7 (Some 1))) = [1, 3, 2]"
  "map mastery_rate (projr (analyze_student_weaknesses demo_db 7 (Some 1))) = [0, 0, 1 / 2]"
  "map knowledge_point_id
     (filter (\<lambda>w. mastery_rate w = 0) (projr (analyze_student_weaknesses demo_db 7 (Some 1))))
   = [1, 3]"
  by (simp_all add: analyze_student_weaknesses_def get_student_all_answers_def demo_defs
     get_question_knowledge_points_def tally_kp_def py_setitem_at_def truthy_id_def Let_def
     rate_kp_def py_truediv_def lookup_subject_name_def get_all_subjects_def kp_data.defs)

lemma demo_encounter_order: "encounter_order demo_db 7 (Some 1) = [1, 2, 3]"
  by (simp add: encounter_order_def first_seen_def get_student_all_answers_def demo_defs
     get_question_knowledge_points_def truthy_id_def)

text \<open>
  C3. For every attempt history, the output of the weakness ranker is sorted
  non-decreasing by mastery rate, every entry has a mastery rate strictly below 0.65, and
  ties keep first-encounter order: for each rate \<open>r\<close>, the entries with that rate appear
  in the output in the order in which the scan first met their knowledge points.
\<close>

theorem weakness_ranking_sorted_stable:
  assumes "analyze_student_weaknesses db student_id subject_id = Inr ws"
  shows "sorted (map mastery_rate ws)
       \<and> (\<forall>w \<in> set ws. mastery_rate w < 0.65)
       \<and> (\<forall>r. map knowledge_point_id (filter (\<lambda>w. mastery_rate w = r) ws)
              = filter (\<lambda>k. k \<in> knowledge_point_id ` {w \<in> set ws. mastery_rate w = r})
                  (encounter_order db student_id subject_id))"
proof (cases "get_student_all_answers db student_id = []")
  case True
  with assms have "ws = []" by (simp add: analyze_student_weaknesses_def)
  then show ?thesis by simp
next
  case False
  from analyze_student_weaknesses_result [OF False, of subject_id] obtain perf where
    inv: "keyed_by_id perf"
    and keys: "map fst perf = encounter_order db student_id subject_id"
    and res: "analyze_student_weaknesses db student_id subject_id
               = Inr (sort_key mastery_rate (map (weak_entry db) (filter is_weak (map snd perf))))"
    by blast
  define vals where "vals = map snd perf"
  define pre where "pre = map (weak_entry db) (filter is_weak vals)"
  from assms res have ws: "ws = sort_key mastery_rate pre"
    by (simp add: pre_def vals_def)
  have ids: "map knowledge_point_id vals = encounter_order db student_id subject_id"
    unfolding vals_def keyed_by_id_values [OF inv] by (rule keys)
  have dist: "distinct (map knowledge_point_id vals)"
    unfolding ids encounter_order_def by (rule distinct_first_seen)
  have pre_ids: "map knowledge_point_id pre = map knowledge_point_id (filter is_weak vals)"
    by (simp add: pre_def weak_entry_fields comp_def)
  have sorted: "sorted (map mastery_rate ws)"
    unfolding ws by (rule sorted_sort_key)
  have below: "\<forall>w \<in> set ws. mastery_rate w < 0.65"
    unfolding ws by (auto simp: pre_def weak_entry_fields is_weak_def)
  have stable: "map knowledge_point_id (filter (\<lambda>w. mastery_rate w = r) ws)
              = filter (\<lambda>k. k \<in> knowledge_point_id ` {w \<in> set ws. mastery_rate w = r})
                  (encounter_order db student_id subject_id)" for r
  proof -
    let ?S = "knowledge_point_id ` {w \<in> set pre. mastery_rate w = r}"
    let ?W = "knowledge_point_id ` {d \<in> set vals. is_weak d}"
    have dpre: "distinct (map knowledge_point_id pre)"
      unfolding pre_ids using dist by (rule distinct_map_filter)
    have "filter (\<lambda>w. mastery_rate w = r) ws = filter (\<lambda>w. mastery_rate w = r) pre"
      unfolding ws by (rule sort_key_stable)
    then have "map knowledge_point_id (filter (\<lambda>w. mastery_rate w = r) ws)
             = map knowledge_point_id (filter (\<lambda>w. mastery_rate w = r) pre)" by simp
    also have "\<dots> = filter (\<lambda>k. k \<in> ?S) (map knowledge_point_id pre)"
      using dpre by (rule map_filter_distinct_keys)
    also have "map knowledge_point_id pre = filter (\<lambda>k. k \<in> ?W) (map knowledge_point_id vals)"
      unfolding pre_ids using dist by (rule map_filter_distinct_keys)
    also have "filter (\<lambda>k. k \<in> ?S) (filter (\<lambda>k. k \<in> ?W) (map knowledge_point_id vals))
             = filter (\<lambda>k. k \<in> ?S) (map knowledge_point_id vals)"
    proof -
      have "?S \<subseteq> ?W"
        by (auto simp: pre_def weak_entry_fields image_iff)
      then have "(k \<in> ?W \<and> k \<in> ?S) = (k \<in> ?S)" for k by blast
      then show ?thesis by (simp add: filter_filter)
    qed
    finally show ?thesis
      unfolding ids by (simp add: ws)
  qed
  from sorted below stable show ?thesis by blast
qed

theorem weakness_ranking_sorted_stable_witness:
  "\<exists>ws. analyze_student_weaknesses demo_db 7 (Some 1) = Inr ws
      \<and> map knowledge_point_id ws = [1, 3, 2]
      \<and> map mastery_rate ws = [0, 0, 1 / 2]
      \<and> encounter_order demo_db 7 (Some 1) = [1, 2, 3]
      \<and> sorted (map mastery_rate ws)
      \<and> map knowledge_point_id (filter (\<lambda>w. mastery_rate w = 0) ws) = [1, 3]
      \<and> map knowledge_point_id (filter (\<lambda>w. mastery_rate w = 0) ws)
          = filter (\<lambda>k. k \<in> knowledge_point_id ` {w \<in> set ws. mastery_rate w = 0})
              (encounter_order demo_db 7 (Some 1))"
proof -
  obtain ws where ws: "analyze_student_weaknesses demo_db 7 (Some 1) = Inr ws"
    using analyze_student_weaknesses_total by blast
  from demo_ranking have v: "map knowledge_point_id ws = [1, 3, 2]"
    "map mastery_rate ws = [0, 0, 1 / 2]"
    "map knowledge_point_id (filter (\<lambda>w. mastery_rate w = 0) ws) = [1, 3]"
    unfolding ws by simp_all
  from weakness_ranking_sorted_stable [OF ws]
  have s: "sorted (map mastery_rate ws)"
    and t: "map knowledge_point_id (filter (\<lambda>w. mastery_rate w = 0) ws)
          = filter (\<lambda>k. k \<in> knowledge_point_id ` {w \<in> set ws. mastery_rate w = 0})
              (encounter_order demo_db 7 (Some 1))"
    by blast+
  show ?thesis
    by (rule exI [of _ ws]) (intro conjI ws v demo_encounter_order s t)
qed

lemma search_questions_uniform:
  assumes "subject_id \<noteq> 0" and "t \<noteq> []"
    and "\<forall>q \<in> set (questions db). q_subject_id q = subject_id \<longrightarrow> q_difficulty q = delta"
  shows "set (search_questions db (base_filters subject_id t (lo, hi) (Some used)))
       = (if lo \<le> delta \<and> delta \<le> hi
          then {q \<in> set (questions db). q_subject_id q = subject_id \<and> q_question_type q = t
                  \<and> q_id q \<notin> set used}
          else {})"
  using assms by (auto simp: search_questions_def base_filters_def Let_def)

lemma unused_question_exists:
  assumes d: "distinct (map q_id Q)" and sub: "set sel \<subseteq> set Q"
    and less: "length (filter (\<lambda>q. q_question_type q = t) sel) < length (filter P Q)"
    and typed: "\<forall>q \<in> set Q. P q \<longrightarrow> q_question_type q = t"
  shows "\<exists>q \<in> set Q. P q \<and> q_id q \<notin> q_id ` set sel"
proof (rule ccontr)
  assume "\<not> (\<exists>q \<in> set Q. P q \<and> q_id q \<notin> q_id ` set sel)"
  then have all: "\<forall>q \<in> set Q. P q \<longrightarrow> q_id q \<in> q_id ` set sel" by blast
  from d have inj: "inj_on q_id (set Q)" and dQ: "distinct Q"
    by (simp_all add: distinct_map)
  have "set (filter P Q) \<subseteq> set (filter (\<lambda>q. q_question_type q = t) sel)"
  proof
    fix q assume "q \<in> set (filter P Q)"
    then have q: "q \<in> set Q" "P q" by simp_all
    with all obtain s where s: "s \<in> set sel" "q_id s = q_id q" by force
    with sub have "s \<in> set Q" by blast
    with inj q(1) s(2) have "s = q" by (auto dest: inj_onD)
    with s(1) q typed show "q \<in> set (filter (\<lambda>q. q_question_type q = t) sel)" by simp
  qed
  then have "card (set (filter P Q)) \<le> card (set (filter (\<lambda>q. q_question_type q = t) sel))"
    by (rule card_mono [rotated]) simp
  also have "\<dots> \<le> length (filter (\<lambda>q. q_question_type q = t) sel)" by (rule card_length)
  finally have "card (set (filter P Q)) \<le> length (filter (\<lambda>q. q_question_type q = t) sel)" .
  moreover from dQ have "card (set (filter P Q)) = length (filter P Q)"
    by (intro distinct_card distinct_filter)
  ultimately have "length (filter P Q) \<le> length (filter (\<lambda>q. q_question_type q = t) sel)"
    by (simp only:)
  with less show False by simp
qed

lemma select_question_unrestricted:
  assumes "select_question db g subject_id t None rg ex = Inr (q, g', tr)"
  shows "(case q of
            None \<Rightarrow> search_questions db (base_filters subject_id t rg ex) = []
          | Some x \<Rightarrow> x \<in> set (search_questions db (base_filters subject_id t rg ex)))"
proof (cases "search_questions db (base_filters subject_id t rg ex) = []")
  case True
  with assms show ?thesis by (simp add: select_question_def Let_def)
next
  case False
  with assms show ?thesis
    by (auto simp: select_question_def Let_def choose_from_nonempty)
qed

lemma bank_ok_rng: "bank_ok db (sel, used, g) \<Longrightarrow> bank_ok db (sel, used, g')"
  by (auto simp: bank_ok_def used_ok_def)

lemma fill_slot_uniform:
  assumes subj: "subject_id \<noteq> 0" and ty: "t \<noteq> []"
    and diff: "\<forall>q \<in> set (questions db). q_subject_id q = subject_id \<longrightarrow> q_difficulty q = delta"
    and ids: "distinct (map q_id (questions db))"
    and ok: "bank_ok db (sel, used, g)"
    and room: "in_window delta b n i \<longrightarrow>
               length (filter (\<lambda>q. q_question_type q = t) sel)
                 < length (filter (\<lambda>q. q_subject_id q = subject_id \<and> q_question_type q = t)
                     (questions db))"
  shows "\<exists>st'. fill_slot db subject_id False weak b t n i (sel, used, g) = Inr st'
           \<and> bank_ok db st'
           \<and> (if in_window delta b n i
               then \<exists>q. fst st' = sel @ [q] \<and> q \<in> set (questions db)
                         \<and> q_subject_id q = subject_id \<and> q_question_type q = t
               else fst st' = sel)"
proof -
  from fill_slot_step [of db subject_id False weak b t n i sel used g]
  obtain q g' d g1 tr where
    f: "fill_slot db subject_id False weak b t n i (sel, used, g)
          = Inr (case q of None \<Rightarrow> (sel, used, g') | Some x \<Rightarrow> (sel @ [x], used @ [q_id x], g'))"
    and d: "get_question_difficulty_target i n b = Inr d"
    and s: "select_question db g1 subject_id t None (d - 0.15, d + 0.15) (Some used)
              = Inr (q, g', tr)"
    by auto
  from ok have u: "used = map q_id sel" and du: "distinct used"
    and sub: "set sel \<subseteq> set (questions db)"
    by (auto simp: bank_ok_def used_ok_def)
  have w: "in_window delta b n i = (d - 0.15 \<le> delta \<and> delta \<le> d + 0.15)"
    by (simp add: in_window_def d)
  have found: "set (search_questions db (base_filters subject_id t (d - 0.15, d + 0.15) (Some used)))
       = (if in_window delta b n i
          then {q \<in> set (questions db). q_subject_id q = subject_id \<and> q_question_type q = t
                  \<and> q_id q \<notin> set used}
          else {})"
    unfolding w using subj ty diff by (rule search_questions_uniform)
  note sel_q = select_question_unrestricted [OF s]
  show ?thesis
  proof (cases "in_window delta b n i")
    case False
    with found have "search_questions db
        (base_filters subject_id t (d - 0.15, d + 0.15) (Some used)) = []" by simp
    with sel_q have "q = None" by (cases q) auto
    with f False bank_ok_rng [OF ok, of g'] show ?thesis by simp
  next
    case True
    with room have "length (filter (\<lambda>q. q_question_type q = t) sel)
                 < length (filter (\<lambda>q. q_subject_id q = subject_id \<and> q_question_type q = t)
                     (questions db))" by simp
    with ids sub have "\<exists>q \<in> set (questions db).
         (q_subject_id q = subject_id \<and> q_question_type q = t) \<and> q_id q \<notin> q_id ` set sel"
      by (rule unused_question_exists) simp
    with found True u have ne: "search_questions db
        (base_filters subject_id t (d - 0.15, d + 0.15) (Some used)) \<noteq> []"
      by (metis (mono_tags, lifting) empty_iff list.set(1) mem_Collect_eq set_map)
    with sel_q obtain x where x: "q = Some x"
      and xin: "x \<in> set (search_questions db
                   (base_filters subject_id t (d - 0.15, d + 0.15) (Some used)))"
      by (cases q) auto
    from xin found True have xq: "x \<in> set (questions db)" "q_subject_id x = subject_id"
      "q_question_type x = t" "q_id x \<notin> set used" by simp_all
    have "bank_ok db (sel @ [x], used @ [q_id x], g')"
      using u du sub xq by (auto simp: bank_ok_def used_ok_def)
    with f x True xq show ?thesis by simp
  qed
qed

lemma fill_slots_uniform:
  assumes subj: "subject_id \<noteq> 0" and ty: "t \<noteq> []"
    and diff: "\<forall>q \<in> set (questions db). q_subject_id q = subject_id \<longrightarrow> q_difficulty q = delta"
    and ids: "distinct (map q_id (questions db))"
    and ok: "bank_ok db st"
    and room: "length (filter (\<lambda>q. q_question_type q = t) (fst st))
                 + length (filter (in_window delta b n) slots)
               \<le> length (filter (\<lambda>q. q_subject_id q = subject_id \<and> q_question_type q = t)
                     (questions db))"
  shows "\<exists>st' new. fold_err (fill_slot db subject_id False weak b t n) slots st = Inr st'
           \<and> bank_ok db st'
           \<and> fst st' = fst st @ new
           \<and> length new = length (filter (in_window delta b n) slots)
           \<and> list_all (\<lambda>q. q_subject_id q = subject_id \<and> q_question_type q = t) new"
  using ok room
proof (induction slots arbitrary: st)
  case Nil
  then show ?case by simp
next
  case (Cons i slots)
  obtain sel used g where st: "st = (sel, used, g)" by (cases st) auto
  let ?N = "length (filter (\<lambda>q. q_subject_id q = subject_id \<and> q_question_type q = t)
                     (questions db))"
  from Cons.prems(2) have room_i: "in_window delta b n i \<longrightarrow>
      length (filter (\<lambda>q. q_question_type q = t) sel) < ?N"
    by (auto simp: st split: if_splits)
  from Cons.prems(1) have ok0: "bank_ok db (sel, used, g)" by (simp add: st)
  from fill_slot_uniform [OF subj ty diff ids ok0 room_i, of weak]
  obtain st1 where
    s1: "fill_slot db subject_id False weak b t n i (sel, used, g) = Inr st1"
    and ok1: "bank_ok db st1"
    and shape1: "if in_window delta b n i
               then \<exists>q. fst st1 = sel @ [q] \<and> q \<in> set (questions db)
                         \<and> q_subject_id q = subject_id \<and> q_question_type q = t
               else fst st1 = sel"
    by blast
  define new1 where "new1 = drop (length sel) (fst st1)"
  from shape1 have n1: "fst st1 = sel @ new1"
    and l1: "length new1 = (if in_window delta b n i then 1 else 0)"
    and t1: "list_all (\<lambda>q. q_subject_id q = subject_id \<and> q_question_type q = t) new1"
    by (auto simp: new1_def split: if_splits)
  have room1: "length (filter (\<lambda>q. q_question_type q = t) (fst st1))
                 + length (filter (in_window delta b n) slots) \<le> ?N"
  proof -
    from t1 have "filter (\<lambda>q. q_question_type q = t) new1 = new1"
      by (simp add: list_all_iff)
    then have "length (filter (\<lambda>q. q_question_type q = t) (fst st1))
             = length (filter (\<lambda>q. q_question_type q = t) sel) + length new1"
      by (simp add: n1)
    with Cons.prems(2) l1 show ?thesis by (auto simp: st split: if_splits)
  qed
  from Cons.IH [OF ok1 room1] obtain st2 new2 where
    s2: "fold_err (fill_slot db subject_id False weak b t n) slots st1 = Inr st2"
    and ok2: "bank_ok db st2"
    and n2: "fst st2 = fst st1 @ new2"
    and l2: "length new2 = length (filter (in_window delta b n) slots)"
    and t2: "list_all (\<lambda>q. q_subject_id q = subject_id \<and> q_question_type q = t) new2"
    by blast
  have "fold_err (fill_slot db subject_id False weak b t n) (i # slots) st = Inr st2"
    by (simp add: st s1 s2)
  moreover have "fst st2 = fst st @ (new1 @ new2)" by (simp add: n2 n1 st)
  moreover have "length (new1 @ new2) = length (filter (in_window delta b n) (i # slots))"
    by (simp add: l1 l2)
  moreover have "list_all (\<lambda>q. q_subject_id q = subject_id \<and> q_question_type q = t) (new1 @ new2)"
    using t1 t2 by simp
  ultimately show ?case using ok2 by blast
qed

lemma fill_type_uniform:
  assumes subj: "subject_id \<noteq> 0" and ty: "t \<noteq> []"
    and diff: "\<forall>q \<in> set (questions db). q_subject_id q = subject_id \<longrightarrow> q_difficulty q = delta"
    and ids: "distinct (map q_id (questions db))"
    and ok: "bank_ok db st"
    and room: "length (filter (\<lambda>q. q_question_type q = t) (fst st))
                 + length (filter (in_window delta b (cfg_count cfg))
                     (map int [0..<nat (cfg_count cfg)]))
               \<le> length (filter (\<lambda>q. q_subject_id q = subject_id \<and> q_question_type q = t)
                     (questions db))"
  shows "\<exists>st' new. fill_type db subject_id False weak b (t, cfg) st = Inr st'
           \<and> bank_ok db st'
           \<and> fst st' = fst st @ new
           \<and> length new = length (filter (in_window delta b (cfg_count cfg))
                                    (map int [0..<nat (cfg_count cfg)]))
           \<and> list_all (\<lambda>q. q_subject_id q = subject_id \<and> q_question_type q = t) new"
  using fill_slots_uniform [OF subj ty diff ids ok room, of weak]
  by (simp add: fill_type_def)

lemma medium_windows:
  "length (filter (in_window 0.5 0.5 12) (map int [0..<nat 12])) = 9"
  "length (filter (in_window 0.5 0.5 4) (map int [0..<nat 4])) = 3"
  "length (filter (in_window 0.5 0.5 6) (map int [0..<nat 6])) = 5"
  by (simp_all add: in_window_def get_question_difficulty_target_def py_truediv_def
      upt_conv_Cons)

lemma type_names:
  "type_choice \<noteq> []" "type_fill_in \<noteq> []" "type_short_answer \<noteq> []"
  "type_choice \<noteq> type_fill_in" "type_choice \<noteq> type_short_answer"
  "type_fill_in \<noteq> type_short_answer"
  by (simp_all add: type_choice_def type_fill_in_def type_short_answer_def)

lemma sum_scores_uniform:
  "list_all (\<lambda>q. q_score q = c) qs \<Longrightarrow> sum_list (map q_score qs) = real (length qs) * c"
  by (induction qs) (simp_all add: algebra_simps)

lemma scenario_b_selection:
  assumes subj: "subject_id \<noteq> 0"
    and ids: "distinct (map q_id (questions db))"
    and diff: "list_all (\<lambda>q. q_difficulty q = 0.5)
                 (filter (\<lambda>q. q_subject_id q = subject_id) (questions db))"
    and n_choice: "length (filter (\<lambda>q. q_subject_id q = subject_id
                                     \<and> q_question_type q = type_choice) (questions db)) = 12"
    and n_fill: "length (filter (\<lambda>q. q_subject_id q = subject_id
                                   \<and> q_question_type q = type_fill_in) (questions db)) = 4"
    and n_short: "length (filter (\<lambda>q. q_subject_id q = subject_id
                                    \<and> q_question_type q = type_short_answer) (questions db)) = 6"
  shows "\<exists>r c f s.
           generate_targeted_exam db g student_id subject_id 150 False ''medium'' None = Inr r
         \<and> exam_questions (fst r) = c @ f @ s
         \<and> length c = 9 \<and> length f = 3 \<and> length s = 5
         \<and> list_all (\<lambda>q. q_subject_id q = subject_id \<and> q_question_type q = type_choice) c
         \<and> list_all (\<lambda>q. q_subject_id q = subject_id \<and> q_question_type q = type_fill_in) f
         \<and> list_all (\<lambda>q. q_subject_id q = subject_id \<and> q_question_type q = type_short_answer) s
         \<and> set (c @ f @ s) \<subseteq> set (questions db)
         \<and> actual_count (fst r) = 17
         \<and> exam_total_score (fst r) = sum_list (map q_score (c @ f @ s))"
proof -
  from diff have d: "\<forall>q \<in> set (questions db). q_subject_id q = subject_id
                       \<longrightarrow> q_difficulty q = 0.5"
    by (simp add: list_all_iff)
  obtain ws where ws: "analyze_student_weaknesses db student_id (Some subject_id) = Inr ws"
    using analyze_student_weaknesses_total by blast
  define weak where "weak = map knowledge_point_id (take 15 ws)"
  have ok0: "bank_ok db ([], [], g)" by (simp add: bank_ok_def used_ok_def)
  have room1: "length (filter (\<lambda>q. q_question_type q = type_choice) (fst (([], [], g) :: sel_state)))
                 + length (filter (in_window 0.5 0.5 (cfg_count \<lparr>cfg_count = 12, cfg_score_each = 4\<rparr>))
                     (map int [0..<nat (cfg_count \<lparr>cfg_count = 12, cfg_score_each = 4\<rparr>)]))
               \<le> length (filter (\<lambda>q. q_subject_id q = subject_id \<and> q_question_type q = type_choice)
                     (questions db))"
    using medium_windows(1) by (simp add: n_choice)
  from fill_type_uniform [OF subj type_names(1) d ids ok0 room1, of weak]
  obtain st1 c where
    s1: "fill_type db subject_id False weak 0.5 (type_choice, \<lparr>cfg_count = 12, cfg_score_each = 4\<rparr>)
           ([], [], g) = Inr st1"
    and ok1: "bank_ok db st1" and q1: "fst st1 = c" and l1: "length c = 9"
    and t1: "list_all (\<lambda>q. q_subject_id q = subject_id \<and> q_question_type q = type_choice) c"
    using medium_windows(1) by auto
  have none1: "filter (\<lambda>q. q_question_type q = type_fill_in) c = []"
    using t1 type_names(4) by (auto simp: list_all_iff filter_empty_conv)
  have room2: "length (filter (\<lambda>q. q_question_type q = type_fill_in) (fst st1))
                 + length (filter (in_window 0.5 0.5 (cfg_count \<lparr>cfg_count = 4, cfg_score_each = 5\<rparr>))
                     (map int [0..<nat (cfg_count \<lparr>cfg_count = 4, cfg_score_each = 5\<rparr>)]))
               \<le> length (filter (\<lambda>q. q_subject_id q = subject_id \<and> q_question_type q = type_fill_in)
                     (questions db))"
    using medium_windows(2) by (simp add: n_fill q1 none1)
  from fill_type_uniform [OF subj type_names(2) d ids ok1 room2, of weak]
  obtain st2 f where
    s2: "fill_type db subject_id False weak 0.5 (type_fill_in, \<lparr>cfg_count = 4, cfg_score_each = 5\<rparr>)
           st1 = Inr st2"
    and ok2: "bank_ok db st2" and q2: "fst st2 = c @ f" and l2: "length f = 3"
    and t2: "list_all (\<lambda>q. q_subject_id q = subject_id \<and> q_question_type q = type_fill_in) f"
    using medium_windows(2) by (auto simp: q1)
  have none2: "filter (\<lambda>q. q_question_type q = type_short_answer) c = []"
    "filter (\<lambda>q. q_question_type q = type_short_answer) f = []"
    using t1 t2 type_names(5,6) by (auto simp: list_all_iff filter_empty_conv)
  have room3: "length (filter (\<lambda>q. q_question_type q = type_short_answer) (fst st2))
                 + length (filter (in_window 0.5 0.5 (cfg_count \<lparr>cfg_count = 6, cfg_score_each = 15\<rparr>))
                     (map int [0..<nat (cfg_count \<lparr>cfg_count = 6, cfg_score_each = 15\<rparr>)]))
               \<le> length (filter (\<lambda>q. q_subject_id q = subject_id \<and> q_question_type q = type_short_answer)
                     (questions db))"
    using medium_windows(3) by (simp add: n_short q2 none2)
  from fill_type_uniform [OF subj type_names(3) d ids ok2 room3, of weak]
  obtain st3 s where
    s3: "fill_type db subject_id False weak 0.5 (type_short_answer, \<lparr>cfg_count = 6, cfg_score_each = 15\<rparr>)
           st2 = Inr st3"
    and ok3: "bank_ok db st3" and q3: "fst st3 = c @ f @ s" and l3: "length s = 5"
    and t3: "list_all (\<lambda>q. q_subject_id q = subject_id \<and> q_question_type q = type_short_answer) s"
    using medium_windows(3) by (auto simp: q2)
  have loop: "fold_err (fill_type db subject_id False weak 0.5)
                (get_default_distribution db subject_id 150) ([], [], g) = Inr st3"
    using s1 s2 s3 by (simp add: get_default_distribution_def)
  obtain ds where ds: "calculate_difficulty_stats (fst st3) = Inr ds"
    using calculate_difficulty_stats_total by blast
  obtain cv where cv: "calculate_weakness_coverage db (fst st3) weak = Inr cv"
    using calculate_weakness_coverage_total by blast
  obtain rs where rs: "generate_recommendations (fst st3) ws cv = Inr rs"
    using generate_recommendations_total by blast
  have run: "generate_targeted_exam db g student_id subject_id 150 False ''medium'' None
        = Inr (\<lparr>exam_questions = fst st3, exam_total_score = sum_list (map q_score (fst st3)),
                actual_count = length (fst st3), difficulty_stats = ds,
                weakness_coverage = cv, recommendations = rs,
                weaknesses_analyzed = take 10 ws\<rparr>, snd (snd st3))"
    unfolding generate_targeted_exam_def Let_def
    using loop by (simp add: ws weak_def [symmetric] get_difficulty_target_medium ds cv rs)
  from ok3 have sub: "set (c @ f @ s) \<subseteq> set (questions db)"
    by (simp add: bank_ok_def q3)
  show ?thesis
    apply (rule exI [of _ "(\<lparr>exam_questions = fst st3,
                exam_total_score = sum_list (map q_score (fst st3)),
                actual_count = length (fst st3), difficulty_stats = ds,
                weakness_coverage = cv, recommendations = rs,
                weaknesses_analyzed = take 10 ws\<rparr>, snd (snd st3))"])
    apply (rule exI [of _ c])
    apply (rule exI [of _ f])
    apply (rule exI [of _ s])
    using run l1 l2 l3 t1 t2 t3 sub by (simp add: q3)
qed

lemma scenario_b_totals:
  assumes subj: "subject_id \<noteq> 0"
    and ids: "distinct (map q_id (questions db))"
    and diff: "list_all (\<lambda>q. q_difficulty q = 0.5)
                 (filter (\<lambda>q. q_subject_id q = subject_id) (questions db))"
    and n_choice: "length (filter (\<lambda>q. q_subject_id q = subject_id
                                     \<and> q_question_type q = type_choice) (questions db)) = 12"
    and n_fill: "length (filter (\<lambda>q. q_subject_id q = subject_id
                                   \<and> q_question_type q = type_fill_in) (questions db)) = 4"
    and n_short: "length (filter (\<lambda>q. q_subject_id q = subject_id
                                    \<and> q_question_type q = type_short_answer) (questions db)) = 6"
  shows "\<exists>r. generate_targeted_exam db g student_id subject_id 150 False ''medium'' None = Inr r
         \<and> actual_count (fst r) = 17
         \<and> length (exam_questions (fst r)) = 17
         \<and> length (filter (\<lambda>q. q_question_type q = type_choice) (exam_questions (fst r))) = 9
         \<and> length (filter (\<lambda>q. q_question_type q = type_fill_in) (exam_questions (fst r))) = 3
         \<and> length (filter (\<lambda>q. q_question_type q = type_short_answer)
                      (exam_questions (fst r))) = 5
         \<and> exam_total_score (fst r) = sum_list (map q_score (exam_questions (fst r)))
         \<and> (list_all (\<lambda>q. q_score q = (if q_question_type q = type_choice then 4
                                         else if q_question_type q = type_fill_in then 5
                                         else 15))
               (filter (\<lambda>q. q_subject_id q = subject_id) (questions db))
             \<longrightarrow> exam_total_score (fst r) = 126)"
proof -
  from scenario_b_selection [OF assms, of g student_id] obtain r c f s where
    run: "generate_targeted_exam db g student_id subject_id 150 False ''medium'' None = Inr r"
    and qs: "exam_questions (fst r) = c @ f @ s"
    and len: "length c = 9" "length f = 3" "length s = 5"
    and tc: "list_all (\<lambda>q. q_subject_id q = subject_id \<and> q_question_type q = type_choice) c"
    and tf: "list_all (\<lambda>q. q_subject_id q = subject_id \<and> q_question_type q = type_fill_in) f"
    and ts: "list_all (\<lambda>q. q_subject_id q = subject_id \<and> q_question_type q = type_short_answer) s"
    and sub: "set (c @ f @ s) \<subseteq> set (questions db)"
    and cnt: "actual_count (fst r) = 17"
    and tot: "exam_total_score (fst r) = sum_list (map q_score (c @ f @ s))"
    by blast
  have fc: "filter (\<lambda>q. q_question_type q = type_choice) c = c"
    "filter (\<lambda>q. q_question_type q = type_choice) f = []"
    "filter (\<lambda>q. q_question_type q = type_choice) s = []"
    using tc tf ts type_names by (auto simp: list_all_iff filter_empty_conv)
  have ff: "filter (\<lambda>q. q_question_type q = type_fill_in) c = []"
    "filter (\<lambda>q. q_question_type q = type_fill_in) f = f"
    "filter (\<lambda>q. q_question_type q = type_fill_in) s = []"
    using tc tf ts type_names by (auto simp: list_all_iff filter_empty_conv)
  have fs: "filter (\<lambda>q. q_question_type q = type_short_answer) c = []"
    "filter (\<lambda>q. q_question_type q = type_short_answer) f = []"
    "filter (\<lambda>q. q_question_type q = type_short_answer) s = s"
    using tc tf ts type_names by (auto simp: list_all_iff filter_empty_conv)
  have score: "exam_total_score (fst r) = 126"
    if sc: "list_all (\<lambda>q. q_score q = (if q_question_type q = type_choice then 4
                                         else if q_question_type q = type_fill_in then 5
                                         else 15))
               (filter (\<lambda>q. q_subject_id q = subject_id) (questions db))"
  proof -
    from sc sub tc have "list_all (\<lambda>q. q_score q = 4) c"
      by (auto simp: list_all_iff)
    then have s1: "sum_list (map q_score c) = 9 * 4"
      using sum_scores_uniform [of 4 c] by (simp add: len)
    from sc sub tf type_names have "list_all (\<lambda>q. q_score q = 5) f"
      by (auto simp: list_all_iff)
    then have s2: "sum_list (map q_score f) = 3 * 5"
      using sum_scores_uniform [of 5 f] by (simp add: len)
    from sc sub ts type_names have "list_all (\<lambda>q. q_score q = 15) s"
      by (auto simp: list_all_iff)
    then have s3: "sum_list (map q_score s) = 5 * 15"
      using sum_scores_uniform [of 15 s] by (simp add: len)
    show ?thesis by (simp add: tot s1 s2 s3)
  qed
  show ?thesis
    apply (rule exI [of _ r])
    using run cnt tot score by (simp add: qs len fc ff fs)
qed

lemma scenario_b_db_facts:
  "(1::int) \<noteq> 0"
  "distinct (map q_id (questions scenario_b_db))"
  "list_all (\<lambda>q. q_difficulty q = 0.5)
     (filter (\<lambda>q. q_subject_id q = 1) (questions scenario_b_db))"
  "length (filter (\<lambda>q. q_subject_id q = 1 \<and> q_question_type q = type_choice)
     (questions scenario_b_db)) = 12"
  "length (filter (\<lambda>q. q_subject_id q = 1 \<and> q_question_type q = type_fill_in)
     (questions scenario_b_db)) = 4"
  "length (filter (\<lambda>q. q_subject_id q = 1 \<and> q_question_type q = type_short_answer)
     (questions scenario_b_db)) = 6"
  "list_all (\<lambda>q. q_score q = (if q_question_type q = type_choice then 4
                                else if q_question_type q = type_fill_in then 5
                                else 15))
     (filter (\<lambda>q. q_subject_id q = 1) (questions scenario_b_db))"
  by (simp_all add: scenario_b_db_def demo_question_def type_choice_def type_fill_in_def
      type_short_answer_def)

text \<open>
  The scenario as the specification states it (22 questions, total 158) fails on the bank
  of scenario B: the run returns 17 questions with total 126. The slots at the low end of
  each type group have windows that end below 0.5 (slot 0 of every group has target 0.3
  and window 0.15 to 0.45), so they stay empty.
\<close>

theorem scenario_b_counterexample:
  "\<not> isl (generate_targeted_exam scenario_b_db demo_rng 7 1 150 False ''medium'' None)
   \<and> actual_count (fst (projr
        (generate_targeted_exam scenario_b_db demo_rng 7 1 150 False ''medium'' None))) = 17
   \<and> exam_total_score (fst (projr
        (generate_targeted_exam scenario_b_db demo_rng 7 1 150 False ''medium'' None))) = 126
   \<and> \<not> (actual_count (fst (projr
          (generate_targeted_exam scenario_b_db demo_rng 7 1 150 False ''medium'' None))) = 22
        \<and> exam_total_score (fst (projr
          (generate_targeted_exam scenario_b_db demo_rng 7 1 150 False ''medium'' None))) = 158)"
proof -
  from scenario_b_totals [OF scenario_b_db_facts(1-6), of demo_rng 7] scenario_b_db_facts(7)
  obtain r where
    r: "generate_targeted_exam scenario_b_db demo_rng 7 1 150 False ''medium'' None = Inr r"
    and c: "actual_count (fst r) = 17" and t: "exam_total_score (fst r) = 126"
    by blast
  show ?thesis unfolding r by (simp add: c t)
qed

text \<open>
  C1 (as amended). For a question bank that holds, for the subject, exactly 12 choice, 4
  fill-in and 6 short-answer questions, all of difficulty 0.5 and with distinct ids,
  composing with total score 150, \<^verbatim>\<open>focus_on_weaknesses=False\<close>, no custom template and
  the default difficulty level selects, for every outcome of the random draws, exactly 17
  questions: 9 choice, 3 fill-in and 5 short-answer, one for each slot whose difficulty
  target lies within 0.15 of 0.5. The actual total score is the sum of the stored scores of
  the selected questions; it is 126 when every stored score is the template's score for
  the question's type (4, 5, 15).
\<close>

theorem scenario_b_selects_seventeen:
  assumes "subject_id \<noteq> 0"
    and "distinct (map q_id (questions db))"
    and "list_all (\<lambda>q. q_difficulty q = 0.5)
           (filter (\<lambda>q. q_subject_id q = subject_id) (questions db))"
    and "length (filter (\<lambda>q. q_subject_id q = subject_id
                               \<and> q_question_type q = type_choice) (questions db)) = 12"
    and "length (filter (\<lambda>q. q_subject_id q = subject_id
                               \<and> q_question_type q = type_fill_in) (questions db)) = 4"
    and "length (filter (\<lambda>q. q_subject_id q = subject_id
                               \<and> q_question_type q = type_short_answer) (questions db)) = 6"
  shows "\<exists>r. generate_targeted_exam db g student_id subject_id 150 False ''medium'' None = Inr r
         \<and> actual_count (fst r) = 17
         \<and> length (exam_questions (fst r)) = 17
         \<and> length (filter (\<lambda>q. q_question_type q = type_choice) (exam_questions (fst r))) = 9
         \<and> length (filter (\<lambda>q. q_question_type q = type_fill_in) (exam_questions (fst r))) = 3
         \<and> length (filter (\<lambda>q. q_question_type q = type_short_answer)
                      (exam_questions (fst r))) = 5
         \<and> exam_total_score (fst r) = sum_list (map q_score (exam_questions (fst r)))
         \<and> (list_all (\<lambda>q. q_score q = (if q_question_type q = type_choice then 4
                                         else if q_question_type q = type_fill_in then 5
                                         else 15))
               (filter (\<lambda>q. q_subject_id q = subject_id) (questions db))
             \<longrightarrow> exam_total_score (fst r) = 126)"
  using assms by (rule scenario_b_totals)

theorem scenario_b_selects_seventeen_witness:
  "(1::int) \<noteq> 0
   \<and> distinct (map q_id (questions scenario_b_db))
   \<and> list_all (\<lambda>q. q_difficulty q = 0.5)
        (filter (\<lambda>q. q_subject_id q = 1) (questions scenario_b_db))
   \<and> length (filter (\<lambda>q. q_subject_id q = 1 \<and> q_question_type q = type_choice)
        (questions scenario_b_db)) = 12
   \<and> length (filter (\<lambda>q. q_subject_id q = 1 \<and> q_question_type q = type_fill_in)
        (questions scenario_b_db)) = 4
   \<and> length (filter (\<lambda>q. q_subject_id q = 1 \<and> q_question_type q = type_short_answer)
        (questions scenario_b_db)) = 6
   \<and> (\<exists>r. generate_targeted_exam scenario_b_db other_rng 7 1 150 False ''medium'' None = Inr r
          \<and> actual_count (fst r) = 17
          \<and> length (filter (\<lambda>q. q_question_type q = type_choice) (exam_questions (fst r))) = 9
          \<and> length (filter (\<lambda>q. q_question_type q = type_fill_in) (exam_questions (fst r))) = 3
          \<and> length (filter (\<lambda>q. q_question_type q = type_short_answer)
                       (exam_questions (fst r))) = 5
          \<and> exam_total_score (fst r) = 126)"
proof -
  from scenario_b_selects_seventeen [OF scenario_b_db_facts(1-6), of other_rng 7]
    scenario_b_db_facts(7)
  have "\<exists>r. generate_targeted_exam scenario_b_db other_rng 7 1 150 False ''medium'' None = Inr r
          \<and> actual_count (fst r) = 17
          \<and> length (filter (\<lambda>q. q_question_type q = type_choice) (exam_questions (fst r))) = 9
          \<and> length (filter (\<lambda>q. q_question_type q = type_fill_in) (exam_questions (fst r))) = 3
          \<and> length (filter (\<lambda>q. q_question_type q = type_short_answer)
                       (exam_questions (fst r))) = 5
          \<and> exam_total_score (fst r) = 126"
    by blast
  with scenario_b_db_facts(1-6) show ?thesis by (intro conjI)
qed

end
